theory Spec2Isabelle
  imports Main "HOL-Library.Sublist" "HOL-Library.Multiset"
begin

section \<open>Conventions of the embedding\<close>

text \<open>
  The crew orchestration engine is TypeScript.  A thrown \<^verbatim>\<open>Error\<close> (or a rejected
  promise) is the left summand of a sum type and carries the error's message; the right
  summand is the value returned.  An optional field is an \<open>option\<close>.  JavaScript
  numbers that the engine only counts with are \<open>nat\<close>; configured numbers, which may
  be zero or negative, are \<open>int\<close> (fractions and NaN are outside the model).
  Timestamps (\<^verbatim>\<open>Date.now()\<close>) and the random ids of memory entries are read by no
  decision of the engine and are left out of the records, except for the plan, whose id
  and creation time come from a clock value given as a parameter.
\<close>

type_synonym 'a throws = "string + 'a"

definition sq :: string where
  "sq = [CHR 0x27]"

definition nl :: string where
  "nl = [CHR 0x0A]"

definition digit_char :: "nat \<Rightarrow> char" where
  "digit_char n = ''0123456789'' ! n"

text \<open>The decimal rendering of a number inside a template literal.\<close>

function dec_nat :: "nat \<Rightarrow> string" where
  "dec_nat n = (if n < 10 then [digit_char n] else dec_nat (n div 10) @ [digit_char (n mod 10)])"
  by pat_completeness auto
termination
  by (relation "measure id") auto

declare dec_nat.simps [simp del]

definition String_int :: "int \<Rightarrow> string" where
  "String_int i = (if i < 0 then ''-'' @ dec_nat (nat (- i)) else dec_nat (nat i))"

text \<open>\<^verbatim>\<open>lines.join("\n")\<close>\<close>

fun join_nl :: "string list \<Rightarrow> string" where
  "join_nl [] = []"
| "join_nl [x] = x"
| "join_nl (x # y # ys) = x @ nl @ join_nl (y # ys)"

text \<open>
  \<^verbatim>\<open>String.prototype.trim\<close>.  A character is a code unit from U+0000 to U+00FF; the
  white space and line terminators among these are U+0009 to U+000D, U+0020 and U+00A0.
\<close>

definition is_space :: "char \<Rightarrow> bool" where
  "is_space c = (c \<in> set [CHR 0x09, CHR 0x0A, CHR 0x0B, CHR 0x0C, CHR 0x0D, CHR 0x20, CHR 0xA0])"

definition trim :: "string \<Rightarrow> string" where
  "trim s = rev (dropWhile is_space (rev (dropWhile is_space s)))"

datatype phase = planning | execution | reflection

section \<open>ToolAllowlist.ts\<close>

record ToolInvocationContext =
  ctx_agentId :: string
  ctx_phase :: phase
  toolName :: string

record AgentToolPolicy =
  policy_agentId :: string
  allowedToolIds :: "string list option"

record AllowlistDecision =
  allowed :: bool
  reason :: "string option"

text \<open>\<^verbatim>\<open>new Map(policies.map((p) => [p.agentId, p]))\<close>: a later policy of an agent
  replaces an earlier one.\<close>

definition ToolAllowlistEnforcer :: "AgentToolPolicy list \<Rightarrow> (string \<rightharpoonup> AgentToolPolicy)" where
  "ToolAllowlistEnforcer policies = map_of (rev (map (\<lambda>p. (policy_agentId p, p)) policies))"

definition check :: "(string \<rightharpoonup> AgentToolPolicy) \<Rightarrow> ToolInvocationContext \<Rightarrow> AllowlistDecision" where
  "check policyMap ctx =
     (case policyMap (ctx_agentId ctx) of
        None \<Rightarrow> \<lparr>allowed = True, reason = None\<rparr>
      | Some policy \<Rightarrow>
          (let list = (case allowedToolIds policy of None \<Rightarrow> [] | Some l \<Rightarrow> l) in
           if length list = 0 then \<lparr>allowed = True, reason = None\<rparr>
           else if toolName ctx \<in> set list then \<lparr>allowed = True, reason = None\<rparr>
           else \<lparr>allowed = False,
                 reason = Some (''Tool '' @ sq @ toolName ctx @ sq @ '' not in allowlist for agent ''
                                @ sq @ ctx_agentId ctx @ sq @ ''.'')\<rparr>))"

definition enforce :: "(string \<rightharpoonup> AgentToolPolicy) \<Rightarrow> ToolInvocationContext \<Rightarrow> unit throws" where
  "enforce policyMap ctx =
     (let decision = check policyMap ctx in
      if \<not> allowed decision
      then Inl (case reason decision of
                  None \<Rightarrow> ''Tool invocation blocked by allowlist.''
                | Some r \<Rightarrow> if r = [] then ''Tool invocation blocked by allowlist.'' else r)
      else Inr ())"

section \<open>CrewOrchestrator.ts: termination state\<close>

datatype TerminationReason =
  MAX_AGENT_LOOPS | MAX_REFLECTION_CYCLES | MANUAL_HUMAN_ABORT | MODEL_SAYS_DONE | POLICY_DENY

text \<open>
  \<^verbatim>\<open>agentLoopCounts\<close> is a plain object used as a map from agent ids to counts.  The
  agent ids are taken not to be names of properties an object inherits
  (\<^verbatim>\<open>constructor\<close>, \<^verbatim>\<open>toString\<close>, ...), for which the lookup gives a function.
\<close>

record TerminationState =
  agentLoopCounts :: "string \<rightharpoonup> nat"
  reflectionCycles :: nat
  terminated :: bool
  termination_reason :: "TerminationReason option"
  terminationDetail :: "string option"

record TerminationPolicy =
  maxAgentLoops :: "int option"
  maxReflectionCycles :: "int option"

record ParallelPolicy =
  maxConcurrentAgents :: "int option"

record CrewExecutionPolicies =
  policy_termination :: "TerminationPolicy option"
  policy_parallel :: "ParallelPolicy option"

text \<open>\<^verbatim>\<open>this.executionPolicies?.termination?.maxAgentLoops\<close>\<close>

definition policy_maxAgentLoops :: "CrewExecutionPolicies option \<Rightarrow> int option" where
  "policy_maxAgentLoops pol =
     (case pol of None \<Rightarrow> None
      | Some p \<Rightarrow> (case policy_termination p of None \<Rightarrow> None | Some t \<Rightarrow> maxAgentLoops t))"

definition policy_maxReflectionCycles :: "CrewExecutionPolicies option \<Rightarrow> int option" where
  "policy_maxReflectionCycles pol =
     (case pol of None \<Rightarrow> None
      | Some p \<Rightarrow> (case policy_termination p of None \<Rightarrow> None | Some t \<Rightarrow> maxReflectionCycles t))"

text \<open>The truth value JavaScript gives an optional number and an optional string.\<close>

definition truthy_num :: "int option \<Rightarrow> bool" where
  "truthy_num n = (case n of None \<Rightarrow> False | Some k \<Rightarrow> k \<noteq> 0)"

definition truthy_str :: "string option \<Rightarrow> bool" where
  "truthy_str s = (case s of None \<Rightarrow> False | Some t \<Rightarrow> t \<noteq> [])"

definition setTerminated :: "TerminationReason \<Rightarrow> string option \<Rightarrow> TerminationState \<Rightarrow> TerminationState" where
  "setTerminated r detail t =
     (if \<not> terminated t
      then t\<lparr>terminated := True,
             termination_reason := Some r,
             terminationDetail := (if truthy_str detail then detail else terminationDetail t)\<rparr>
      else t)"

definition incrementAgentLoop ::
  "CrewExecutionPolicies option \<Rightarrow> string \<Rightarrow> TerminationState \<Rightarrow> bool \<times> TerminationState" where
  "incrementAgentLoop pol agentId t =
     (let maxLoops = policy_maxAgentLoops pol in
      if terminated t then (False, t)
      else
        (let c = (case agentLoopCounts t agentId of None \<Rightarrow> 0 | Some n \<Rightarrow> n) + 1;
             t1 = t\<lparr>agentLoopCounts := (agentLoopCounts t)(agentId \<mapsto> c)\<rparr>
         in if truthy_num maxLoops \<and> int c > the maxLoops
            then (False,
                  setTerminated MAX_AGENT_LOOPS
                    (Some (''agent '' @ agentId @ '' exceeded maxAgentLoops (''
                           @ String_int (the maxLoops) @ '')'')) t1)
            else (True, t1)))"

definition incrementReflectionCycle ::
  "CrewExecutionPolicies option \<Rightarrow> TerminationState \<Rightarrow> bool \<times> TerminationState" where
  "incrementReflectionCycle pol t =
     (let maxReflections = policy_maxReflectionCycles pol in
      if terminated t then (False, t)
      else
        (let t1 = t\<lparr>reflectionCycles := reflectionCycles t + 1\<rparr>
         in if truthy_num maxReflections \<and> int (reflectionCycles t1) > the maxReflections
            then (False,
                  setTerminated MAX_REFLECTION_CYCLES
                    (Some (''exceeded maxReflectionCycles ('' @ String_int (the maxReflections) @ '')'')) t1)
            else (True, t1)))"

definition checkTermination :: "TerminationState \<Rightarrow> bool" where
  "checkTermination t = terminated t"

text \<open>
  A caller's successive calls of the two counters during one run, with the booleans they
  return, oldest first.
\<close>

datatype counter_call = AgentLoop string | ReflectionCycle

fun counter_step ::
  "CrewExecutionPolicies option \<Rightarrow> counter_call \<Rightarrow> TerminationState \<Rightarrow> bool \<times> TerminationState" where
  "counter_step pol (AgentLoop a) t = incrementAgentLoop pol a t"
| "counter_step pol ReflectionCycle t = incrementReflectionCycle pol t"

fun counter_calls ::
  "CrewExecutionPolicies option \<Rightarrow> counter_call list \<Rightarrow> TerminationState
     \<Rightarrow> bool list \<times> TerminationState" where
  "counter_calls pol [] t = ([], t)"
| "counter_calls pol (c # cs) t =
     (case counter_step pol c t of
        (b, t1) \<Rightarrow> (case counter_calls pol cs t1 of (bs, t2) \<Rightarrow> (b # bs, t2)))"

section \<open>JSON values\<close>

text \<open>
  \<^verbatim>\<open>JSON.parse\<close> is the language's built-in and not code of the repository: the
  functions below take it as the parameter \<open>JSON_parse\<close>, which returns the parsed value
  or the message of the \<^verbatim>\<open>SyntaxError\<close> it throws.  Numbers are integers here.
\<close>

datatype json =
  JNull | JBool bool | JNum int | JStr string | JArr "json list" | JObj "(string \<times> json) list"

type_synonym JSON_parser = "string \<Rightarrow> json throws"

text \<open>
  \<^verbatim>\<open>parsed[key]\<close> for the keys the engine reads: a \<^verbatim>\<open>TypeError\<close> on \<^verbatim>\<open>null\<close>,
  \<^verbatim>\<open>undefined\<close> (\<open>None\<close>) on anything that is not an object holding the key; of a
  repeated key the last value stands.
\<close>

definition js_get :: "json \<Rightarrow> string \<Rightarrow> json option throws" where
  "js_get v key =
     (case v of
        JNull \<Rightarrow> Inl (''Cannot read properties of null (reading '' @ sq @ key @ sq @ '')'')
      | JObj kvs \<Rightarrow> Inr (map_of (rev kvs) key)
      | _ \<Rightarrow> Inr None)"

definition js_truthy :: "json option \<Rightarrow> bool" where
  "js_truthy v =
     (case v of
        None \<Rightarrow> False
      | Some JNull \<Rightarrow> False
      | Some (JBool b) \<Rightarrow> b
      | Some (JNum n) \<Rightarrow> n \<noteq> 0
      | Some (JStr s) \<Rightarrow> s \<noteq> []
      | Some _ \<Rightarrow> True)"

fun join_comma :: "string list \<Rightarrow> string" where
  "join_comma [] = []"
| "join_comma [x] = x"
| "join_comma (x # y # ys) = x @ '','' @ join_comma (y # ys)"

text \<open>
  \<^verbatim>\<open>String(d)\<close> of a parsed value; inside an array \<^verbatim>\<open>null\<close> renders as nothing.
  Numbers are the integers below \<^verbatim>\<open>10^21\<close> in magnitude, which render as their digits
  (from there on \<^verbatim>\<open>String\<close> gives the exponent form).
\<close>

fun js_String :: "json \<Rightarrow> string" where
  "js_String JNull = ''null''"
| "js_String (JBool b) = (if b then ''true'' else ''false'')"
| "js_String (JNum n) = String_int n"
| "js_String (JStr s) = s"
| "js_String (JArr xs) = join_comma (map (\<lambda>x. if x = JNull then [] else js_String x) xs)"
| "js_String (JObj kvs) = ''[object Object]''"

text \<open>\<^verbatim>\<open>extractFirstJsonObject\<close>: the scan from the first opening brace to the brace that
  closes it; \<open>acc\<close> holds the characters passed, newest first.\<close>

fun balance_scan :: "nat \<Rightarrow> string \<Rightarrow> string \<Rightarrow> string option" where
  "balance_scan depth acc [] = None"
| "balance_scan depth acc (ch # rest) =
     (if ch = CHR ''{'' then balance_scan (depth + 1) (ch # acc) rest
      else if ch = CHR ''}'' then
        (if depth - 1 = 0 then Some (rev (ch # acc)) else balance_scan (depth - 1) (ch # acc) rest)
      else balance_scan depth (ch # acc) rest)"

definition extractFirstJsonObject :: "string \<Rightarrow> string option" where
  "extractFirstJsonObject raw =
     (case dropWhile (\<lambda>c. c \<noteq> CHR ''{'') raw of
        [] \<Rightarrow> None
      | s \<Rightarrow> balance_scan 0 [] s)"

section \<open>StructuredDecision.ts\<close>

datatype RouteStrategy = plan_then_parallel | direct_execution

record RouteDecision =
  strategy :: RouteStrategy
  rationale :: string

record AgentSummary =
  summary_id :: string
  summary_role :: string
  summary_parallelGroup :: "string option"

record RouteDecisionContext =
  rd_goal :: string
  rd_crewName :: "string option"
  rd_agentSummaries :: "AgentSummary list option"
  rd_recentNotes :: "string option"

text \<open>\<^verbatim>\<open>x || fallback\<close> on an optional string.\<close>

definition or_else :: "string option \<Rightarrow> string \<Rightarrow> string" where
  "or_else s d = (case s of None \<Rightarrow> d | Some t \<Rightarrow> if t = [] then d else t)"

definition buildRouteDecisionPrompt :: "RouteDecisionContext \<Rightarrow> string" where
  \<open>buildRouteDecisionPrompt ctx =
     (let agentLines =
            or_else (map_option (\<lambda>as. join_nl (map (\<lambda>a. ''- '' @ summary_id a @ '': '' @ summary_role a) as))
                       (rd_agentSummaries ctx))
              ''(no agent summaries)''
      in join_nl (filter (\<lambda>l. l \<noteq> [])
           [''You must decide the initial execution strategy for the crew.'',
            '''',
            ''Return ONLY valid JSON with keys: strategy, rationale.'',
            ''Valid strategies:'',
            ''  - "plan_then_parallel": produce a multi-step plan first, then execute worker agents (possibly in parallel).'',
            ''  - "direct_execution": skip explicit multi-step plan; let agents act sequentially / opportunistically.'',
            '''',
            ''Context:'',
            ''Goal: '' @ rd_goal ctx,
            ''Crew: '' @ or_else (rd_crewName ctx) ''unknown'',
            ''Agents:'',
            agentLines,
            (if truthy_str (rd_recentNotes ctx) then ''Recent Notes: '' @ the (rd_recentNotes ctx) else ''''),
            '''',
            ''Example JSON (do not include comments): {"strategy":"plan_then_parallel","rationale":"Need decomposition across backend/frontend/db."}'']))\<close>

text \<open>The first parse, and the second one of the extracted object when the first throws.\<close>

definition parse_or_extract :: "JSON_parser \<Rightarrow> string \<Rightarrow> string \<Rightarrow> (string \<Rightarrow> string) \<Rightarrow> json throws" where
  "parse_or_extract JSON_parse candidate none_found second_error =
     (case JSON_parse candidate of
        Inr v \<Rightarrow> Inr v
      | Inl _ \<Rightarrow>
          (case extractFirstJsonObject candidate of
             None \<Rightarrow> Inl none_found
           | Some extracted \<Rightarrow>
               (case JSON_parse extracted of
                  Inl e \<Rightarrow> Inl (second_error e)
                | Inr v \<Rightarrow> Inr v)))"

text \<open>The loop over the required keys: the first key that is missing or \<^verbatim>\<open>null\<close> throws.\<close>

fun require_keys :: "string \<Rightarrow> json \<Rightarrow> string list \<Rightarrow> unit throws" where
  "require_keys label parsed [] = Inr ()"
| "require_keys label parsed (key # keys) =
     (case js_get parsed key of
        Inl e \<Rightarrow> Inl e
      | Inr v \<Rightarrow>
          if v = None \<or> v = Some JNull
          then Inl (label @ '' validation error: missing key '' @ sq @ key @ sq @ ''.'')
          else require_keys label parsed keys)"

definition ROUTE_REQUIRED_KEYS :: "string list" where
  "ROUTE_REQUIRED_KEYS = [''strategy'', ''rationale'']"

definition route_strategy_of :: "string \<Rightarrow> RouteStrategy option" where
  "route_strategy_of s =
     (if s = ''plan_then_parallel'' then Some plan_then_parallel
      else if s = ''direct_execution'' then Some direct_execution
      else None)"

definition parseRouteDecision :: "JSON_parser \<Rightarrow> string \<Rightarrow> RouteDecision throws" where
  "parseRouteDecision JSON_parse raw =
     (let candidate = trim raw in
      case parse_or_extract JSON_parse candidate
             ''RouteDecision parse error: no JSON object found.''
             (\<lambda>_. ''RouteDecision parse error: invalid JSON structure.'') of
        Inl e \<Rightarrow> Inl e
      | Inr parsed \<Rightarrow>
          (case require_keys ''RouteDecision'' parsed ROUTE_REQUIRED_KEYS of
             Inl e \<Rightarrow> Inl e
           | Inr _ \<Rightarrow>
               (case js_get parsed ''strategy'' of
                  Inr (Some (JStr s)) \<Rightarrow>
                    (case route_strategy_of (trim s) of
                       None \<Rightarrow>
                         Inl (''RouteDecision validation error: '' @ sq @ ''strategy'' @ sq
                              @ '' must be one of plan_then_parallel, direct_execution.'')
                     | Some strat \<Rightarrow>
                         (case js_get parsed ''rationale'' of
                            Inr (Some (JStr r)) \<Rightarrow>
                              if trim r = []
                              then Inl (''RouteDecision validation error: '' @ sq @ ''rationale'' @ sq
                                        @ '' must be a non-empty string.'')
                              else Inr \<lparr>strategy = strat, rationale = trim r\<rparr>
                          | _ \<Rightarrow>
                              Inl (''RouteDecision validation error: '' @ sq @ ''rationale'' @ sq
                                   @ '' must be a non-empty string.'')))
                | _ \<Rightarrow>
                    Inl (''RouteDecision validation error: '' @ sq @ ''strategy'' @ sq
                         @ '' must be a string.''))))"

definition buildRepairInstruction :: "string \<Rightarrow> string" where
  "buildRepairInstruction errorMessage =
     join_nl
       [''Your previous response could not be parsed as valid JSON for the required decision schema.'',
        ''Error: '' @ errorMessage,
        ''Return ONLY a JSON object matching the required keys. No commentary. No markdown fencing.'']"

section \<open>The language-model client\<close>

datatype role = system | user | assistant

record LlmChatMessage =
  msg_role :: role
  content :: string

text \<open>
  \<^verbatim>\<open>llm.chat(messages, opts)\<close> returns the raw text or rejects.  The client may keep
  state between calls (the repository's tests count them), so its answer depends on the
  number of calls made before as well as on the messages.
\<close>

type_synonym LlmClient = "nat \<Rightarrow> LlmChatMessage list \<Rightarrow> string throws"

text \<open>
  A telemetry hook is seen by the engine only through whether the awaited call returns or
  throws: a hook is a function to \<open>Some message\<close> when it throws (or rejects) and to
  \<open>None\<close> when it returns; an absent hook never throws.
\<close>

type_synonym attempt_hook = "string \<Rightarrow> string option \<Rightarrow> nat \<Rightarrow> string option"

definition call_attempt_hook ::
  "attempt_hook option \<Rightarrow> string \<Rightarrow> string option \<Rightarrow> nat \<Rightarrow> string option" where
  "call_attempt_hook h raw err attempt = (case h of None \<Rightarrow> None | Some f \<Rightarrow> f raw err attempt)"

section \<open>PlanTypes.ts\<close>

datatype step_status = Pending | Running | Done | Error

record PlanStep =
  step_id :: string
  description :: string
  step_agentId :: "string option"
  step_parallelGroup :: "string option"
  dependsOn :: "string list option"
  status :: "step_status option"
  errorMessage :: "string option"

record Plan =
  plan_id :: string
  createdTs :: nat
  plan_rationale :: "string option"
  steps :: "PlanStep list"

section \<open>Planner.ts\<close>

record RawPlannedStep =
  raw_id :: "string option"
  raw_description :: string
  raw_agentId :: "string option"
  raw_parallelGroup :: "string option"
  raw_dependsOn :: "string list option"

record PlanDecision =
  decision_rationale :: string
  decision_steps :: "RawPlannedStep list"

definition PLAN_REQUIRED_KEYS :: "string list" where
  "PLAN_REQUIRED_KEYS = [''rationale'', ''steps'']"

record BuildPlanPromptCtx =
  bp_goal :: string
  bp_crewName :: "string option"
  bp_agentSummaries :: "AgentSummary list"
  bp_recentNotes :: "string option"
  bp_maxSteps :: "int option"

definition buildPlanPrompt :: "BuildPlanPromptCtx \<Rightarrow> string" where
  \<open>buildPlanPrompt ctx =
     (let agentLines =
            (if length (bp_agentSummaries ctx) > 0
             then join_nl (map (\<lambda>a. ''- '' @ summary_id a @ '': role='' @ sq @ summary_role a @ sq
                                    @ (if truthy_str (summary_parallelGroup a)
                                       then '' parallelGroup='' @ sq @ the (summary_parallelGroup a) @ sq
                                       else ''''))
                             (bp_agentSummaries ctx))
             else ''(no agents)'');
          cap = (case bp_maxSteps ctx of None \<Rightarrow> 12 | Some n \<Rightarrow> n)
      in join_nl (filter (\<lambda>l. l \<noteq> [])
           [''You are the planning module for a multi-agent crew.'',
            ''Produce a concise multi-step plan decomposing the goal.'',
            ''Return ONLY valid JSON with keys: rationale (string), steps (array).'',
            ''Hard cap steps: '' @ String_int cap @ ''. Omit trivial / redundant steps.'',
            '''',
            ''Each step object keys:'',
            ''  - description (required, actionable verb phrase)'',
            ''  - agentId (optional: choose existing agent best suited, otherwise omit)'',
            ''  - parallelGroup (optional: hint grouping for parallel execution, e.g. 'workers' / 'research')'',
            ''  - dependsOn (optional array of prior step ids)'',
            '''',
            ''Rules:'',
            ''  - Assign agentId only when clearly beneficial; leave undefined if any competent agent can perform.'',
            ''  - Use dependsOn only when strict ordering is required.'',
            ''  - Prefer maximal safe parallelism (independent steps should not depend).'',
            ''  - Provide rationale explaining decomposition strategy & parallel grouping rationale.'',
            '''',
            ''Goal: '' @ bp_goal ctx,
            ''Crew: '' @ or_else (bp_crewName ctx) ''unknown'',
            ''Agents:'',
            agentLines,
            (if truthy_str (bp_recentNotes ctx) then ''Recent Notes: '' @ the (bp_recentNotes ctx) else ''''),
            '''',
            ''Example JSON (do not copy blindly):'',
            ''{"rationale":"Decompose across data gathering then implementation.","steps":[{"id":"s1","description":"Collect API schema references","agentId":"researcher","parallelGroup":"research"},{"id":"s2","description":"Draft interface layer","agentId":"backend","dependsOn":["s1"],"parallelGroup":"workers"}]}'']))\<close>

text \<open>One element of \<^verbatim>\<open>parsed.steps\<close>, as the \<^verbatim>\<open>forEach\<close> callback reads it.\<close>

definition string_field :: "json \<Rightarrow> string \<Rightarrow> string option" where
  "string_field s key = (case js_get s key of Inr (Some (JStr v)) \<Rightarrow> Some (trim v) | _ \<Rightarrow> None)"

definition raw_step_of_json :: "nat \<Rightarrow> json \<Rightarrow> RawPlannedStep throws" where
  "raw_step_of_json idx s =
     (if \<not> js_truthy (Some s) \<or> \<not> (case s of JObj _ \<Rightarrow> True | JArr _ \<Rightarrow> True | _ \<Rightarrow> False)
      then Inl (''Plan step '' @ dec_nat idx @ '' invalid (not an object).'')
      else if (case string_field s ''description'' of None \<Rightarrow> True | Some d \<Rightarrow> d = [])
      then Inl (''Plan step '' @ dec_nat idx @ '' missing non-empty description.'')
      else
        (let deps = (case js_get s ''dependsOn'' of Inr v \<Rightarrow> v | Inl _ \<Rightarrow> None) in
         if js_truthy deps \<and> \<not> (case deps of Some (JArr _) \<Rightarrow> True | _ \<Rightarrow> False)
         then Inl (''Plan step '' @ dec_nat idx @ '' dependsOn must be an array if present.'')
         else Inr \<lparr>raw_id = (case string_field s ''id'' of
                               None \<Rightarrow> None
                             | Some i \<Rightarrow> if i = [] then None else Some i),
                   raw_description = the (string_field s ''description''),
                   raw_agentId = string_field s ''agentId'',
                   raw_parallelGroup = string_field s ''parallelGroup'',
                   raw_dependsOn = (case deps of
                                      Some (JArr ds) \<Rightarrow> Some (map js_String ds)
                                    | _ \<Rightarrow> None)\<rparr>))"

fun raw_steps_of_json :: "nat \<Rightarrow> json list \<Rightarrow> RawPlannedStep list throws" where
  "raw_steps_of_json idx [] = Inr []"
| "raw_steps_of_json idx (s # rest) =
     (case raw_step_of_json idx s of
        Inl e \<Rightarrow> Inl e
      | Inr st \<Rightarrow>
          (case raw_steps_of_json (idx + 1) rest of
             Inl e \<Rightarrow> Inl e
           | Inr sts \<Rightarrow> Inr (st # sts)))"

text \<open>The validation of \<^verbatim>\<open>parsePlanDecision\<close>, after the text has been parsed.\<close>

definition planDecision_of_json :: "json \<Rightarrow> PlanDecision throws" where
  "planDecision_of_json parsed =
     (case require_keys ''Plan'' parsed PLAN_REQUIRED_KEYS of
        Inl e \<Rightarrow> Inl e
      | Inr _ \<Rightarrow>
          (case js_get parsed ''rationale'' of
             Inr (Some (JStr r)) \<Rightarrow>
               if trim r = []
               then Inl (''Plan validation error: '' @ sq @ ''rationale'' @ sq @ '' must be non-empty string.'')
               else
                 (case js_get parsed ''steps'' of
                    Inr (Some (JArr ss)) \<Rightarrow>
                      (case raw_steps_of_json 0 ss of
                         Inl e \<Rightarrow> Inl e
                       | Inr sts \<Rightarrow> Inr \<lparr>decision_rationale = trim r, decision_steps = sts\<rparr>)
                  | _ \<Rightarrow> Inl (''Plan validation error: '' @ sq @ ''steps'' @ sq @ '' must be an array.''))
           | _ \<Rightarrow> Inl (''Plan validation error: '' @ sq @ ''rationale'' @ sq @ '' must be non-empty string.'')))"

definition parsePlanDecision :: "JSON_parser \<Rightarrow> string \<Rightarrow> PlanDecision throws" where
  "parsePlanDecision JSON_parse raw =
     (case parse_or_extract JSON_parse (trim raw) ''Plan parse error: no JSON object found.'' (\<lambda>e. e) of
        Inl e \<Rightarrow> Inl e
      | Inr parsed \<Rightarrow> planDecision_of_json parsed)"

text \<open>
  The normalisation at the end of \<^verbatim>\<open>invokePlanner\<close>: the \<^verbatim>\<open>map\<close> that fills in a
  missing id with \<^verbatim>\<open>s{idx + 1}\<close>, then the \<^verbatim>\<open>forEach\<close> that renames a step whose id was
  seen before to \<^verbatim>\<open>s{idx + 1}\<close> and adds the id the step now has to \<open>seen\<close>.
\<close>

definition sequential_id :: "nat \<Rightarrow> string" where
  "sequential_id idx = ''s'' @ dec_nat (idx + 1)"

fun assign_ids :: "nat \<Rightarrow> RawPlannedStep list \<Rightarrow> PlanStep list" where
  "assign_ids idx [] = []"
| "assign_ids idx (s # rest) =
     \<lparr>step_id = (case raw_id s of None \<Rightarrow> sequential_id idx | Some i \<Rightarrow> i),
      description = raw_description s,
      step_agentId = raw_agentId s,
      step_parallelGroup = raw_parallelGroup s,
      dependsOn = Some (case raw_dependsOn s of None \<Rightarrow> [] | Some ds \<Rightarrow> ds),
      status = Some Pending,
      errorMessage = None\<rparr> # assign_ids (idx + 1) rest"

fun enforce_unique :: "string set \<Rightarrow> nat \<Rightarrow> PlanStep list \<Rightarrow> PlanStep list" where
  "enforce_unique seen idx [] = []"
| "enforce_unique seen idx (st # rest) =
     (let st' = (if step_id st \<in> seen then st\<lparr>step_id := sequential_id idx\<rparr> else st)
      in st' # enforce_unique (insert (step_id st') seen) (idx + 1) rest)"

definition normalizeSteps :: "RawPlannedStep list \<Rightarrow> PlanStep list" where
  "normalizeSteps raw_steps = enforce_unique {} 0 (assign_ids 0 raw_steps)"

definition plan_of_decision :: "nat \<Rightarrow> PlanDecision \<Rightarrow> Plan" where
  "plan_of_decision now decision =
     \<lparr>plan_id = ''plan_'' @ dec_nat now,
      createdTs = now,
      plan_rationale = Some (decision_rationale decision),
      steps = normalizeSteps (decision_steps decision)\<rparr>"

record PlannerInvokeOptions =
  pl_goal :: string
  pl_recentNotes :: "string option"
  pl_crewName :: "string option"
  pl_agentSummaries :: "AgentSummary list"
  pl_llm :: LlmClient
  pl_maxAttempts :: "int option"
  pl_maxSteps :: "int option"
  pl_onAttempt :: "attempt_hook option"

text \<open>
  The attempt loop of \<^verbatim>\<open>invokePlanner\<close>.  \<open>calls\<close> counts the calls the client has
  received.  The result says whether an exception left the loop (a rejected chat call, or
  the hook throwing inside the \<^verbatim>\<open>catch\<close> block), and gives \<^verbatim>\<open>lastError\<close>,
  \<^verbatim>\<open>decision\<close>, the call count and the messages at the loop's end.
\<close>

function plan_attempts ::
  "JSON_parser \<Rightarrow> PlannerInvokeOptions \<Rightarrow> int \<Rightarrow> nat \<Rightarrow> string option \<Rightarrow> PlanDecision option
     \<Rightarrow> nat \<Rightarrow> LlmChatMessage list
     \<Rightarrow> unit throws \<times> string option \<times> PlanDecision option \<times> nat \<times> LlmChatMessage list" where
  "plan_attempts JSON_parse opts maxAttempts attempt lastError decision calls messages =
     (if int attempt \<le> maxAttempts then
        (case pl_llm opts calls messages of
           Inl e \<Rightarrow> (Inl e, lastError, decision, calls + 1, messages)
         | Inr raw \<Rightarrow>
             (let parsed = parsePlanDecision JSON_parse raw;
                  decision' = (case parsed of Inl _ \<Rightarrow> decision | Inr d \<Rightarrow> Some d);
                  tried = (case parsed of
                             Inl e \<Rightarrow> Some e
                           | Inr _ \<Rightarrow> call_attempt_hook (pl_onAttempt opts) raw None attempt)
              in case tried of
                   None \<Rightarrow> (Inr (), lastError, decision', calls + 1, messages)
                 | Some e \<Rightarrow>
                     (case call_attempt_hook (pl_onAttempt opts) raw (Some e) attempt of
                        Some e' \<Rightarrow> (Inl e', Some e, decision', calls + 1, messages)
                      | None \<Rightarrow>
                          plan_attempts JSON_parse opts maxAttempts (attempt + 1) (Some e) decision'
                            (calls + 1)
                            (if int attempt < maxAttempts
                             then messages @ [\<lparr>msg_role = assistant, content = raw\<rparr>,
                                              \<lparr>msg_role = user, content = buildRepairInstruction e\<rparr>]
                             else messages))))
      else (Inr (), lastError, decision, calls, messages))"
  by pat_completeness auto
termination
  by (relation "measure (\<lambda>(J, opts, maxAttempts, attempt, rest). nat (maxAttempts + 1 - int attempt))")
     auto

declare plan_attempts.simps [simp del]

definition invokePlanner ::
  "JSON_parser \<Rightarrow> nat \<Rightarrow> PlannerInvokeOptions \<Rightarrow> nat \<Rightarrow> Plan throws \<times> nat" where
  "invokePlanner JSON_parse now opts calls =
     (let maxAttempts = (case pl_maxAttempts opts of None \<Rightarrow> 3 | Some n \<Rightarrow> n);
          basePrompt = buildPlanPrompt
                         \<lparr>bp_goal = pl_goal opts, bp_crewName = pl_crewName opts,
                          bp_agentSummaries = pl_agentSummaries opts,
                          bp_recentNotes = pl_recentNotes opts, bp_maxSteps = pl_maxSteps opts\<rparr>;
          messages = [\<lparr>msg_role = system,
                       content = ''You are a precise multi-agent planner. Output only JSON.''\<rparr>,
                      \<lparr>msg_role = user, content = basePrompt\<rparr>]
      in case plan_attempts JSON_parse opts maxAttempts 1 None None calls messages of
           (Inl e, _, _, calls', _) \<Rightarrow> (Inl e, calls')
         | (Inr _, lastError, None, calls', _) \<Rightarrow>
             (Inl (''Planner: failed to obtain valid plan after '' @ String_int maxAttempts
                   @ '' attempts. Last error: ''
                   @ (case lastError of None \<Rightarrow> ''undefined'' | Some e \<Rightarrow> e)), calls')
         | (Inr _, _, Some decision, calls', _) \<Rightarrow> (Inr (plan_of_decision now decision), calls'))"

section \<open>ParallelExecutor.ts\<close>

record AgentWorkResult =
  res_agentId :: string
  res_phase :: phase
  success :: bool
  res_output :: "json option"
  res_errorMessage :: "string option"

text \<open>
  A unit of work.  \<open>run\<close> is what awaiting the item's zero-argument action gives: the
  result it resolves with, or the message it throws or rejects with.
\<close>

record AgentWork =
  work_agentId :: string
  work_phase :: phase
  label :: "string option"
  run :: "AgentWorkResult throws"

record ParallelBatchSummary =
  results :: "AgentWorkResult list"
  succeeded :: "AgentWorkResult list"
  failed :: "AgentWorkResult list"

record ParallelExecutor =
  maxConcurrent :: int
  onResult :: "(AgentWorkResult \<Rightarrow> string option) option"
  onStartBatch :: "(nat \<Rightarrow> string option) option"
  onFinishBatch :: "(ParallelBatchSummary \<Rightarrow> string option) option"
  withCheckpointTag :: "(string \<Rightarrow> phase \<Rightarrow> AgentWorkResult throws \<Rightarrow> AgentWorkResult throws) option"

definition new_ParallelExecutor :: "ParallelExecutor \<Rightarrow> ParallelExecutor throws" where
  "new_ParallelExecutor opts =
     (if maxConcurrent opts < 1 then Inl ''ParallelExecutor: maxConcurrent must be >= 1''
      else Inr opts)"

definition failed_result :: "AgentWork \<Rightarrow> string \<Rightarrow> AgentWorkResult" where
  "failed_result item msg =
     \<lparr>res_agentId = work_agentId item, res_phase = work_phase item, success = False,
      res_output = None, res_errorMessage = Some msg\<rparr>"

definition executeItem :: "ParallelExecutor \<Rightarrow> AgentWork \<Rightarrow> AgentWorkResult" where
  "executeItem ex item =
     (case (case withCheckpointTag ex of
              Some wrap \<Rightarrow> wrap (work_agentId item) (work_phase item) (run item)
            | None \<Rightarrow> run item) of
        Inr wrapped \<Rightarrow>
          \<lparr>res_agentId = work_agentId item, res_phase = work_phase item,
           success = success wrapped, res_output = res_output wrapped,
           res_errorMessage = res_errorMessage wrapped\<rparr>
      | Inl msg \<Rightarrow> failed_result item msg)"

text \<open>
  The state of one \<^verbatim>\<open>runBatch\<close> call: the queue, the \<^verbatim>\<open>inFlight\<close> array (each
  promise with the number of launches before it) and the results pushed so far.
\<close>

record pool =
  queue :: "AgentWork list"
  inFlight :: "(nat \<times> AgentWork) list"
  pool_results :: "AgentWorkResult list"
  launched :: nat

definition launchNext :: "pool \<Rightarrow> pool" where
  "launchNext p =
     (case queue p of
        [] \<Rightarrow> p
      | item # rest \<Rightarrow>
          p\<lparr>queue := rest, inFlight := inFlight p @ [(launched p, item)], launched := launched p + 1\<rparr>)"

text \<open>
  The promise at position \<open>k\<close> of \<^verbatim>\<open>inFlight\<close> settles (\<open>k\<close> is taken modulo the
  array's length): the \<^verbatim>\<open>then\<close> callback pushes the item's result and awaits
  \<^verbatim>\<open>onResult\<close>; if that throws, the \<^verbatim>\<open>catch\<close> callback pushes a failed result;
  the \<^verbatim>\<open>finally\<close> callback removes the promise and launches the next queued item.
\<close>

definition settle :: "ParallelExecutor \<Rightarrow> nat \<Rightarrow> pool \<Rightarrow> pool" where
  "settle ex k p =
     (let i = k mod length (inFlight p);
          item = snd (inFlight p ! i);
          res = executeItem ex item;
          pushed = pool_results p @ [res];
          caught = (case (case onResult ex of None \<Rightarrow> None | Some h \<Rightarrow> h res) of
                      None \<Rightarrow> pushed
                    | Some msg \<Rightarrow> pushed @ [failed_result item msg]);
          p1 = p\<lparr>pool_results := caught, inFlight := take i (inFlight p) @ drop (Suc i) (inFlight p)\<rparr>
      in if queue p1 \<noteq> [] then launchNext p1 else p1)"

text \<open>
  \<^verbatim>\<open>await Promise.all(inFlight)\<close> waits for the promises that are in the array when
  it is called, which are the first \<open>initial\<close> launches; promises launched later by a
  \<^verbatim>\<open>finally\<close> callback are not among them.
\<close>

definition awaiting :: "nat \<Rightarrow> pool \<Rightarrow> bool" where
  "awaiting initial p = (filter (\<lambda>e. fst e < initial) (inFlight p) \<noteq> [])"

lemma settle_measure:
  "inFlight p \<noteq> [] \<Longrightarrow>
     length (queue (settle ex k p)) + length (inFlight (settle ex k p))
       < length (queue p) + length (inFlight p)"
proof -
  assume ne: "inFlight p \<noteq> []"
  then have "k mod length (inFlight p) < length (inFlight p)" by simp
  then have "length (take (k mod length (inFlight p)) (inFlight p)
                @ drop (Suc (k mod length (inFlight p))) (inFlight p))
               < length (inFlight p)"
    by simp
  then show ?thesis
    by (cases "queue p") (simp_all add: settle_def Let_def launchNext_def)
qed

text \<open>
  The order in which the actions finish is not fixed by the code.  \<open>sched\<close> lists, oldest
  first, the position in \<^verbatim>\<open>inFlight\<close> of the promise that settles next.  While
  \<^verbatim>\<open>Promise.all\<close> waits and the list is used up, the promises settle in array order
  (every action terminates).  Once the awaited promises have settled, each further entry
  settles one more promise before \<^verbatim>\<open>runBatch\<close> resumes; when the list is used up it
  resumes with the results pushed so far.
\<close>

function drain :: "ParallelExecutor \<Rightarrow> nat \<Rightarrow> nat list \<Rightarrow> pool \<Rightarrow> pool" where
  "drain ex initial sched p =
     (if inFlight p = [] then p
      else if awaiting initial p
      then drain ex initial (tl sched) (settle ex (case sched of [] \<Rightarrow> 0 | k # _ \<Rightarrow> k) p)
      else (case sched of
              [] \<Rightarrow> p
            | k # rest \<Rightarrow> drain ex initial rest (settle ex k p)))"
  by pat_completeness auto
termination
  by (relation "measure (\<lambda>(ex, initial, sched, p). length (queue p) + length (inFlight p))")
     (auto simp: settle_measure)

declare drain.simps [simp del]

definition call_hook :: "('a \<Rightarrow> string option) option \<Rightarrow> 'a \<Rightarrow> string option" where
  "call_hook h x = (case h of None \<Rightarrow> None | Some f \<Rightarrow> f x)"

definition runBatch :: "ParallelExecutor \<Rightarrow> nat list \<Rightarrow> AgentWork list \<Rightarrow> ParallelBatchSummary throws" where
  "runBatch ex sched workItems =
     (case call_hook (onStartBatch ex) (length workItems) of
        Some e \<Rightarrow> Inl e
      | None \<Rightarrow>
          (let initial = min (nat (maxConcurrent ex)) (length workItems);
               primed = (launchNext ^^ initial)
                          \<lparr>queue = workItems, inFlight = [], pool_results = [], launched = 0\<rparr>;
               rs = pool_results (drain ex initial sched primed);
               summary = \<lparr>results = rs, succeeded = filter success rs,
                          failed = filter (\<lambda>r. \<not> success r) rs\<rparr>
           in case call_hook (onFinishBatch ex) summary of
                Some e \<Rightarrow> Inl e
              | None \<Rightarrow> Inr summary))"

section \<open>ShortTermMemory.ts\<close>

datatype MemoryEntryType = thought | observation

datatype MemoryEntry =
  ThoughtEntry (entry_content: string) (entry_agentId: "string option") (entry_phase: "string option")
| ObservationEntry (entry_content: string) (entry_agentId: "string option")
    (entry_toolId: "string option") (entry_success: "bool option")
    (entry_dataSnippet: "string option") (entry_errorType: "string option")

definition entry_type :: "MemoryEntry \<Rightarrow> MemoryEntryType" where
  "entry_type e = (case e of ThoughtEntry _ _ _ \<Rightarrow> thought | ObservationEntry _ _ _ _ _ _ \<Rightarrow> observation)"

record ShortTermMemory =
  entries :: "MemoryEntry list"
  maxEntries :: nat

definition new_ShortTermMemory :: ShortTermMemory where
  "new_ShortTermMemory = \<lparr>entries = [], maxEntries = 200\<rparr>"

definition pushEntry :: "MemoryEntry \<Rightarrow> ShortTermMemory \<Rightarrow> ShortTermMemory" where
  "pushEntry entry m =
     (let es = entries m @ [entry]
      in m\<lparr>entries := (if length es > maxEntries m then drop (length es - maxEntries m) es else es)\<rparr>)"

definition appendThought :: "string \<Rightarrow> ShortTermMemory \<Rightarrow> ShortTermMemory" where
  "appendThought c m = pushEntry (ThoughtEntry c None None) m"

text \<open>\<^verbatim>\<open>appendObservation({ content, success })\<close>, the only form the orchestrator uses.\<close>

definition appendObservation :: "string \<Rightarrow> bool \<Rightarrow> ShortTermMemory \<Rightarrow> ShortTermMemory" where
  "appendObservation c ok m = pushEntry (ObservationEntry c None None (Some ok) None None) m"


section \<open>PlanDAGExecutor.ts\<close>

datatype PlanStepEvent = ev_start | ev_success | ev_error

text \<open>
  The executor's hooks are closures; the orchestrator's ones write to its memory.  A hook
  is a function on the state \<open>'h\<close> it closes over, to the new state or to the message it
  throws with.
\<close>

record 'h PlanDAGExecutorHooks =
  onStepUpdate :: "(PlanStep \<Rightarrow> PlanStepEvent \<Rightarrow> 'h \<Rightarrow> 'h throws) option"
  onWaveStart :: "(nat \<Rightarrow> PlanStep list \<Rightarrow> 'h \<Rightarrow> 'h throws) option"
  onWaveComplete :: "(nat \<Rightarrow> PlanStep list \<Rightarrow> 'h \<Rightarrow> 'h throws) option"

record 'h PlanDAGExecutor =
  dag_parallelExecutor :: ParallelExecutor
  dag_hooks :: "'h PlanDAGExecutorHooks option"

text \<open>
  The work factory is handed the step object and may write to it.  The factory of
  \<^verbatim>\<open>executePlanThenParallel\<close> assigns \<^verbatim>\<open>step.agentId\<close> and writes to no other
  field; the factories of the executor tests write to none.  \<open>AgentRunFactory\<close> is a
  factory of this kind: it gives the work item and the \<^verbatim>\<open>agentId\<close> the step has after
  the call.  The executor with a factory that may write to every field of the step follows
  in the subsection on factories in general, below.
\<close>

type_synonym AgentRunFactory = "PlanStep \<Rightarrow> AgentWork \<times> string option"

text \<open>
  The variables of \<^verbatim>\<open>run\<close>: the plan's steps (changed in place by the source, addressed
  here by their position in \<^verbatim>\<open>plan.steps\<close>), the two counters, the state of the hooks,
  and the number of batches run so far, which selects the batch's schedule.
\<close>

record 'h dag_state =
  dag_steps :: "PlanStep list"
  waves :: nat
  executed :: nat
  hook_state :: 'h
  batches :: nat

text \<open>\<^verbatim>\<open>stepIndex\<close>: from an id to the last step of the plan that has it.\<close>

definition stepIndex :: "PlanStep list \<Rightarrow> (string \<rightharpoonup> nat)" where
  "stepIndex ss = map_of (rev (zip (map step_id ss) [0..<length ss]))"

definition is_pending :: "PlanStep \<Rightarrow> bool" where
  "is_pending s = (status s = Some Pending \<or> status s = None)"

definition dependency_done :: "(string \<rightharpoonup> nat) \<Rightarrow> PlanStep list \<Rightarrow> string \<Rightarrow> bool" where
  "dependency_done idx ss d = (case idx d of None \<Rightarrow> False | Some j \<Rightarrow> status (ss ! j) = Some Done)"

definition isReady :: "(string \<rightharpoonup> nat) \<Rightarrow> PlanStep list \<Rightarrow> PlanStep \<Rightarrow> bool" where
  "isReady idx ss s =
     (is_pending s \<and>
      (case dependsOn s of
         None \<Rightarrow> True
       | Some ds \<Rightarrow> length ds = 0 \<or> list_all (dependency_done idx ss) ds))"

definition ready_steps :: "(string \<rightharpoonup> nat) \<Rightarrow> PlanStep list \<Rightarrow> nat list" where
  "ready_steps idx ss = filter (\<lambda>i. isReady idx ss (ss ! i)) [0..<length ss]"

definition mark_deadlock :: "PlanStep list \<Rightarrow> PlanStep list" where
  "mark_deadlock ss =
     map (\<lambda>s. if status s \<noteq> Some Done \<and> status s \<noteq> Some Error
               then s\<lparr>status := Some Error, errorMessage := Some ''Deadlock: dependencies unresolved''\<rparr>
               else s) ss"

definition group_key :: "PlanStep \<Rightarrow> string" where
  "group_key s = or_else (step_parallelGroup s) ''__default''"

text \<open>The \<^verbatim>\<open>Map\<close> of groups, in the order in which the keys were first set.\<close>

definition add_to_group :: "string \<Rightarrow> nat \<Rightarrow> (string \<times> nat list) list \<Rightarrow> (string \<times> nat list) list" where
  "add_to_group key i groups =
     (if key \<in> set (map fst groups)
      then map (\<lambda>g. if fst g = key then (fst g, snd g @ [i]) else g) groups
      else groups @ [(key, [i])])"

definition group_ready :: "PlanStep list \<Rightarrow> nat list \<Rightarrow> (string \<times> nat list) list" where
  "group_ready ss ready = foldl (\<lambda>groups i. add_to_group (group_key (ss ! i)) i groups) [] ready"

definition call_step_hook :: "'h PlanDAGExecutor \<Rightarrow> PlanStep \<Rightarrow> PlanStepEvent \<Rightarrow> 'h \<Rightarrow> 'h throws" where
  "call_step_hook dag st ev h =
     (case dag_hooks dag of
        None \<Rightarrow> Inr h
      | Some hk \<Rightarrow> (case onStepUpdate hk of None \<Rightarrow> Inr h | Some f \<Rightarrow> f st ev h))"

definition call_wave_start :: "'h PlanDAGExecutor \<Rightarrow> nat \<Rightarrow> PlanStep list \<Rightarrow> 'h \<Rightarrow> 'h throws" where
  "call_wave_start dag w sts h =
     (case dag_hooks dag of
        None \<Rightarrow> Inr h
      | Some hk \<Rightarrow> (case onWaveStart hk of None \<Rightarrow> Inr h | Some f \<Rightarrow> f w sts h))"

definition call_wave_complete :: "'h PlanDAGExecutor \<Rightarrow> nat \<Rightarrow> PlanStep list \<Rightarrow> 'h \<Rightarrow> 'h throws" where
  "call_wave_complete dag w sts h =
     (case dag_hooks dag of
        None \<Rightarrow> Inr h
      | Some hk \<Rightarrow> (case onWaveComplete hk of None \<Rightarrow> Inr h | Some f \<Rightarrow> f w sts h))"

text \<open>The first loop over a group: each step is set to running and announced.\<close>

fun mark_running :: "'h PlanDAGExecutor \<Rightarrow> nat list \<Rightarrow> 'h dag_state \<Rightarrow> 'h dag_state throws" where
  "mark_running dag [] st = Inr st"
| "mark_running dag (i # rest) st =
     (let ss = (dag_steps st)[i := (dag_steps st ! i)\<lparr>status := Some Running\<rparr>]
      in case call_step_hook dag (ss ! i) ev_start (hook_state st) of
           Inl e \<Rightarrow> Inl e
         | Inr h \<Rightarrow> mark_running dag rest (st\<lparr>dag_steps := ss, hook_state := h\<rparr>))"

text \<open>\<^verbatim>\<open>groupSteps.map((step) => buildWork(step))\<close>\<close>

fun build_items :: "AgentRunFactory \<Rightarrow> nat list \<Rightarrow> PlanStep list \<Rightarrow> AgentWork list \<times> PlanStep list" where
  "build_items buildWork [] ss = ([], ss)"
| "build_items buildWork (i # rest) ss =
     (case buildWork (ss ! i) of
        (w, aid) \<Rightarrow>
          (case build_items buildWork rest (ss[i := (ss ! i)\<lparr>step_agentId := aid\<rparr>]) of
             (ws, ss') \<Rightarrow> (w # ws, ss')))"

text \<open>
  \<^verbatim>\<open>groupSteps.find(...)\<close>: the first step of the group that has the result's agent id
  and is running or pending.
\<close>

definition find_step :: "PlanStep list \<Rightarrow> nat list \<Rightarrow> AgentWorkResult \<Rightarrow> nat option" where
  "find_step ss grp r =
     find (\<lambda>i. step_agentId (ss ! i) = Some (res_agentId r)
               \<and> (status (ss ! i) = Some Running \<or> status (ss ! i) = Some Pending)) grp"

text \<open>The loop over \<^verbatim>\<open>summary.results\<close>.\<close>

fun apply_results ::
  "'h PlanDAGExecutor \<Rightarrow> nat list \<Rightarrow> AgentWorkResult list \<Rightarrow> 'h dag_state \<Rightarrow> 'h dag_state throws" where
  "apply_results dag grp [] st = Inr st"
| "apply_results dag grp (r # rs) st =
     (case find_step (dag_steps st) grp r of
        None \<Rightarrow> apply_results dag grp rs st
      | Some i \<Rightarrow>
          (let s' = (if success r
                     then (dag_steps st ! i)\<lparr>status := Some Done\<rparr>
                     else (dag_steps st ! i)\<lparr>status := Some Error,
                            errorMessage := Some (or_else (res_errorMessage r) ''Unknown error'')\<rparr>)
           in case call_step_hook dag s' (if success r then ev_success else ev_error) (hook_state st) of
                Inl e \<Rightarrow> Inl e
              | Inr h \<Rightarrow>
                  apply_results dag grp rs
                    (st\<lparr>dag_steps := (dag_steps st)[i := s'], hook_state := h,
                        executed := executed st + 1\<rparr>)))"

text \<open>One group of a wave.  \<open>sched\<close> gives each batch of the run its schedule.\<close>

definition run_group ::
  "'h PlanDAGExecutor \<Rightarrow> AgentRunFactory \<Rightarrow> (nat \<Rightarrow> nat list) \<Rightarrow> nat list \<Rightarrow> 'h dag_state
     \<Rightarrow> 'h dag_state throws" where
  "run_group dag buildWork sched grp st =
     (case mark_running dag grp st of
        Inl e \<Rightarrow> Inl e
      | Inr st1 \<Rightarrow>
          (case build_items buildWork grp (dag_steps st1) of
             (workItems, ss) \<Rightarrow>
               (case runBatch (dag_parallelExecutor dag) (sched (batches st1)) workItems of
                  Inl e \<Rightarrow> Inl e
                | Inr summary \<Rightarrow>
                    apply_results dag grp (results summary)
                      (st1\<lparr>dag_steps := ss, batches := batches st1 + 1\<rparr>))))"

fun run_groups ::
  "'h PlanDAGExecutor \<Rightarrow> AgentRunFactory \<Rightarrow> (nat \<Rightarrow> nat list) \<Rightarrow> nat list list \<Rightarrow> 'h dag_state
     \<Rightarrow> 'h dag_state throws" where
  "run_groups dag buildWork sched [] st = Inr st"
| "run_groups dag buildWork sched (grp # rest) st =
     (case run_group dag buildWork sched grp st of
        Inl e \<Rightarrow> Inl e
      | Inr st1 \<Rightarrow> run_groups dag buildWork sched rest st1)"

text \<open>The body of the \<^verbatim>\<open>while\<close> loop for a non-empty \<^verbatim>\<open>ready\<close>.\<close>

definition run_wave ::
  "'h PlanDAGExecutor \<Rightarrow> AgentRunFactory \<Rightarrow> (nat \<Rightarrow> nat list) \<Rightarrow> nat list \<Rightarrow> 'h dag_state
     \<Rightarrow> 'h dag_state throws" where
  "run_wave dag buildWork sched ready st =
     (case call_wave_start dag (waves st) (map (\<lambda>i. dag_steps st ! i) ready) (hook_state st) of
        Inl e \<Rightarrow> Inl e
      | Inr h0 \<Rightarrow>
          (case run_groups dag buildWork sched (map snd (group_ready (dag_steps st) ready))
                  (st\<lparr>hook_state := h0\<rparr>) of
             Inl e \<Rightarrow> Inl e
           | Inr st1 \<Rightarrow>
               (case call_wave_complete dag (waves st1) (map (\<lambda>i. dag_steps st1 ! i) ready)
                       (hook_state st1) of
                  Inl e \<Rightarrow> Inl e
                | Inr h1 \<Rightarrow> Inr (st1\<lparr>hook_state := h1, waves := waves st1 + 1\<rparr>))))"

definition pending_count :: "PlanStep list \<Rightarrow> nat" where
  "pending_count ss = length (filter is_pending ss)"

subsection \<open>Every wave makes progress\<close>

text \<open>
  The \<^verbatim>\<open>while (true)\<close> loop of \<^verbatim>\<open>run\<close> is the recursive function \<open>wave_loop\<close>
  below.  Its termination proof needs that a wave with a non-empty \<^verbatim>\<open>ready\<close> list
  leaves fewer pending steps than it found, which is shown first: no operation of a wave
  sets a status back to pending, and every ready step is set to running.
\<close>

definition no_new_pending :: "PlanStep list \<Rightarrow> PlanStep list \<Rightarrow> bool" where
  "no_new_pending ss ss' =
     (length ss' = length ss \<and> (\<forall>i<length ss. is_pending (ss' ! i) \<longrightarrow> is_pending (ss ! i)))"

lemma no_new_pending_refl: "no_new_pending ss ss"
  by (simp add: no_new_pending_def)

lemma no_new_pending_trans:
  "no_new_pending a b \<Longrightarrow> no_new_pending b c \<Longrightarrow> no_new_pending a c"
  unfolding no_new_pending_def by simp

lemma no_new_pending_update:
  "\<not> is_pending s' \<or> (i < length ss \<and> is_pending s' = is_pending (ss ! i)) \<Longrightarrow> no_new_pending ss (ss[i := s'])"
proof -
  assume a: "\<not> is_pending s' \<or> (i < length ss \<and> is_pending s' = is_pending (ss ! i))"
  have "is_pending (ss[i := s'] ! k) \<Longrightarrow> k < length ss \<Longrightarrow> is_pending (ss ! k)" for k
    using a by (cases "k = i") auto
  then show ?thesis
    by (simp add: no_new_pending_def)
qed

lemma no_new_pending_nth:
  "no_new_pending ss ss' \<Longrightarrow> i < length ss \<Longrightarrow> \<not> is_pending (ss ! i) \<Longrightarrow> \<not> is_pending (ss' ! i)"
  unfolding no_new_pending_def by auto

lemma no_new_pending_length: "no_new_pending ss ss' \<Longrightarrow> length ss' = length ss"
  by (simp add: no_new_pending_def)

lemma mark_running_progress:
  "mark_running dag grp st = Inr st' \<Longrightarrow>
     no_new_pending (dag_steps st) (dag_steps st')
     \<and> (\<forall>i\<in>set grp. i < length (dag_steps st) \<longrightarrow> \<not> is_pending (dag_steps st' ! i))
     \<and> batches st' = batches st"
proof (induction grp arbitrary: st)
  case Nil
  then show ?case by (simp add: no_new_pending_refl)
next
  case (Cons i rest)
  let ?ss = "(dag_steps st)[i := (dag_steps st ! i)\<lparr>status := Some Running\<rparr>]"
  from Cons.prems obtain h where
    h: "call_step_hook dag (?ss ! i) ev_start (hook_state st) = Inr h"
    and rec: "mark_running dag rest (st\<lparr>dag_steps := ?ss, hook_state := h\<rparr>) = Inr st'"
    by (auto simp: Let_def split: sum.splits)
  from Cons.IH [OF rec] have ih:
    "no_new_pending ?ss (dag_steps st')"
    "\<forall>j\<in>set rest. j < length (dag_steps st) \<longrightarrow> \<not> is_pending (dag_steps st' ! j)"
    "batches st' = batches st"
    by simp_all
  have up: "no_new_pending (dag_steps st) ?ss"
    by (rule no_new_pending_update) (simp add: is_pending_def)
  have "i < length (dag_steps st) \<Longrightarrow> \<not> is_pending (dag_steps st' ! i)"
  proof -
    assume lt: "i < length (dag_steps st)"
    then have "\<not> is_pending (?ss ! i)" by (simp add: is_pending_def)
    with ih(1) lt show ?thesis by (auto dest: no_new_pending_nth)
  qed
  with ih up show ?case
    by (auto intro: no_new_pending_trans)
qed

lemma build_items_status:
  "build_items bw grp ss = (ws, ss') \<Longrightarrow> map status ss' = map status ss \<and> length ws = length grp"
proof (induction grp arbitrary: ss ws ss')
  case Nil
  then show ?case by simp
next
  case (Cons i rest)
  obtain w aid where b: "bw (ss ! i) = (w, aid)" by (cases "bw (ss ! i)")
  obtain ws1 ss1 where r: "build_items bw rest (ss[i := (ss ! i)\<lparr>step_agentId := aid\<rparr>]) = (ws1, ss1)"
    by (cases "build_items bw rest (ss[i := (ss ! i)\<lparr>step_agentId := aid\<rparr>])")
  from Cons.prems b r have eq: "ws = w # ws1" "ss' = ss1" by simp_all
  from Cons.IH [OF r] have "map status ss1 = map status (ss[i := (ss ! i)\<lparr>step_agentId := aid\<rparr>])"
    and "length ws1 = length rest" by simp_all
  moreover have "map status (ss[i := (ss ! i)\<lparr>step_agentId := aid\<rparr>]) = map status ss"
  proof (cases "i < length ss")
    case True
    then show ?thesis by (simp add: map_update list_update_same_conv)
  next
    case False
    then have "ss[i := (ss ! i)\<lparr>step_agentId := aid\<rparr>] = ss"
      by (intro list_update_beyond) simp
    then show ?thesis by simp
  qed
  ultimately show ?case using eq by simp
qed

lemma same_status_no_new_pending:
  "map status ss' = map status ss \<Longrightarrow> no_new_pending ss ss'"
proof -
  assume m: "map status ss' = map status ss"
  then have len: "length ss' = length ss" by (metis length_map)
  have "\<And>i. i < length ss \<Longrightarrow> status (ss' ! i) = status (ss ! i)"
    using m len by (metis nth_map)
  then show ?thesis
    using len by (simp add: no_new_pending_def is_pending_def)
qed

lemma apply_results_progress:
  "apply_results dag grp rs st = Inr st' \<Longrightarrow> no_new_pending (dag_steps st) (dag_steps st')"
proof (induction rs arbitrary: st)
  case Nil
  then show ?case by (simp add: no_new_pending_refl)
next
  case (Cons r rs)
  show ?case
  proof (cases "find_step (dag_steps st) grp r")
    case None
    with Cons show ?thesis by simp
  next
    case (Some i)
    let ?s = "if success r
                     then (dag_steps st ! i)\<lparr>status := Some Done\<rparr>
                     else (dag_steps st ! i)\<lparr>status := Some Error,
                            errorMessage := Some (or_else (res_errorMessage r) ''Unknown error'')\<rparr>"
    from Cons.prems Some obtain h where
      rec: "apply_results dag grp rs
              (st\<lparr>dag_steps := (dag_steps st)[i := ?s], hook_state := h, executed := executed st + 1\<rparr>)
            = Inr st'"
      by (auto simp: Let_def split: sum.splits)
    have "no_new_pending (dag_steps st) ((dag_steps st)[i := ?s])"
      by (rule no_new_pending_update) (simp add: is_pending_def)
    with Cons.IH [OF rec] show ?thesis
      by (auto intro: no_new_pending_trans)
  qed
qed

lemma run_group_progress:
  assumes "run_group dag bw sched grp st = Inr st'"
  shows "no_new_pending (dag_steps st) (dag_steps st')"
    and "\<forall>i\<in>set grp. i < length (dag_steps st) \<longrightarrow> \<not> is_pending (dag_steps st' ! i)"
proof -
  from assms obtain st1 where m: "mark_running dag grp st = Inr st1"
    by (auto simp: run_group_def split: sum.splits)
  obtain ws ss where b: "build_items bw grp (dag_steps st1) = (ws, ss)"
    by (cases "build_items bw grp (dag_steps st1)")
  from assms m b obtain summary :: ParallelBatchSummary where
    a: "apply_results dag grp (results summary) (st1\<lparr>dag_steps := ss, batches := batches st1 + 1\<rparr>) = Inr st'"
    by (auto simp: run_group_def split: sum.splits)
  note mr = mark_running_progress [OF m]
  have bs: "no_new_pending (dag_steps st1) ss"
    using build_items_status [OF b] by (simp add: same_status_no_new_pending)
  have ar: "no_new_pending ss (dag_steps st')"
    using apply_results_progress [OF a] by simp
  have tail: "no_new_pending (dag_steps st1) (dag_steps st')"
    using bs ar by (rule no_new_pending_trans)
  show "no_new_pending (dag_steps st) (dag_steps st')"
    using mr tail by (auto intro: no_new_pending_trans)
  show "\<forall>i\<in>set grp. i < length (dag_steps st) \<longrightarrow> \<not> is_pending (dag_steps st' ! i)"
  proof (intro ballI impI)
    fix i assume "i \<in> set grp" "i < length (dag_steps st)"
    with mr have "\<not> is_pending (dag_steps st1 ! i)" "i < length (dag_steps st1)"
      by (auto dest: no_new_pending_length)
    with tail show "\<not> is_pending (dag_steps st' ! i)"
      by (auto dest: no_new_pending_nth)
  qed
qed

lemma run_groups_progress:
  "run_groups dag bw sched grps st = Inr st' \<Longrightarrow>
     no_new_pending (dag_steps st) (dag_steps st')
     \<and> (\<forall>grp\<in>set grps. \<forall>i\<in>set grp. i < length (dag_steps st) \<longrightarrow> \<not> is_pending (dag_steps st' ! i))"
proof (induction grps arbitrary: st)
  case Nil
  then show ?case by (simp add: no_new_pending_refl)
next
  case (Cons grp rest)
  from Cons.prems obtain st1 where
    g: "run_group dag bw sched grp st = Inr st1"
    and r: "run_groups dag bw sched rest st1 = Inr st'"
    by (auto split: sum.splits)
  note gp = run_group_progress [OF g]
  from Cons.IH [OF r] have ih:
    "no_new_pending (dag_steps st1) (dag_steps st')"
    "\<forall>grp\<in>set rest. \<forall>i\<in>set grp. i < length (dag_steps st1) \<longrightarrow> \<not> is_pending (dag_steps st' ! i)"
    by simp_all
  have len: "length (dag_steps st1) = length (dag_steps st)"
    using gp(1) by (rule no_new_pending_length)
  have "\<forall>i\<in>set grp. i < length (dag_steps st) \<longrightarrow> \<not> is_pending (dag_steps st' ! i)"
    using gp(2) ih(1) len by (auto dest: no_new_pending_nth)
  with gp(1) ih len show ?case
    by (auto intro: no_new_pending_trans)
qed

lemma add_to_group_members:
  "(\<Union>g\<in>set (add_to_group key i groups). set (snd g)) = insert i (\<Union>g\<in>set groups. set (snd g))"
  by (auto simp: add_to_group_def split: if_splits)

lemma foldl_groups_members:
  "(\<Union>g\<in>set (foldl (\<lambda>groups i. add_to_group (k i) i groups) acc ready). set (snd g))
     = set ready \<union> (\<Union>g\<in>set acc. set (snd g))"
  by (induction ready arbitrary: acc) (simp_all add: add_to_group_members)

lemma group_ready_members:
  "(\<Union>g\<in>set (group_ready ss ready). set (snd g)) = set ready"
  unfolding group_ready_def
  using foldl_groups_members [of "\<lambda>i. group_key (ss ! i)" "[]" ready] by simp

lemma fewer_pending:
  assumes nn: "no_new_pending ss ss'"
      and j: "j < length ss" "is_pending (ss ! j)" "\<not> is_pending (ss' ! j)"
  shows "pending_count ss' < pending_count ss"
proof -
  have len: "length ss' = length ss" using nn by (rule no_new_pending_length)
  have sub: "{i. i < length ss' \<and> is_pending (ss' ! i)} \<subseteq> {i. i < length ss \<and> is_pending (ss ! i)}"
    using nn by (auto simp: no_new_pending_def)
  have "j \<in> {i. i < length ss \<and> is_pending (ss ! i)}" using j by simp
  moreover have "j \<notin> {i. i < length ss' \<and> is_pending (ss' ! i)}" using j by simp
  ultimately have strict: "{i. i < length ss' \<and> is_pending (ss' ! i)} \<subset> {i. i < length ss \<and> is_pending (ss ! i)}"
    using sub by blast
  have fin: "finite {i. i < length ss \<and> is_pending (ss ! i)}" by simp
  from psubset_card_mono [OF fin strict] show ?thesis
    by (simp add: pending_count_def length_filter_conv_card)
qed

lemma run_wave_progress:
  assumes w: "run_wave dag bw sched (ready_steps idx (dag_steps st)) st = Inr st'"
      and ne: "ready_steps idx (dag_steps st) \<noteq> []"
  shows "pending_count (dag_steps st') < pending_count (dag_steps st)"
proof -
  let ?ready = "ready_steps idx (dag_steps st)"
  from w obtain h0 st1 h1 where
    g: "run_groups dag bw sched (map snd (group_ready (dag_steps st) ?ready)) (st\<lparr>hook_state := h0\<rparr>) = Inr st1"
    and e: "st' = st1\<lparr>hook_state := h1, waves := waves st1 + 1\<rparr>"
    by (auto simp: run_wave_def split: sum.splits)
  from run_groups_progress [OF g] have
    nn: "no_new_pending (dag_steps st) (dag_steps st1)"
    and np: "\<forall>grp\<in>set (map snd (group_ready (dag_steps st) ?ready)).
              \<forall>i\<in>set grp. i < length (dag_steps st) \<longrightarrow> \<not> is_pending (dag_steps st1 ! i)"
    by simp_all
  from ne obtain j where j: "j \<in> set ?ready" by (cases ?ready) auto
  then have jl: "j < length (dag_steps st)" and jp: "is_pending (dag_steps st ! j)"
    by (auto simp: ready_steps_def isReady_def)
  from j group_ready_members [of "dag_steps st" ?ready]
  obtain g where "g \<in> set (group_ready (dag_steps st) ?ready)" "j \<in> set (snd g)"
    by blast
  with np jl have "\<not> is_pending (dag_steps st1 ! j)" by auto
  with nn jl jp have "pending_count (dag_steps st1) < pending_count (dag_steps st)"
    by (rule fewer_pending)
  then show ?thesis using e by simp
qed


text \<open>
  \<^verbatim>\<open>while (true) { ... }\<close>: without a ready step the remaining steps are marked as
  deadlocked and the loop ends; otherwise a wave runs and the loop continues, unless a hook
  or the batch threw.  With a factory that writes \<^verbatim>\<open>agentId\<close> only the loop is this
  total function.
\<close>

function wave_loop ::
  "'h PlanDAGExecutor \<Rightarrow> AgentRunFactory \<Rightarrow> (nat \<Rightarrow> nat list) \<Rightarrow> (string \<rightharpoonup> nat) \<Rightarrow> 'h dag_state
     \<Rightarrow> 'h dag_state throws" where
  "wave_loop dag buildWork sched idx st =
     (if ready_steps idx (dag_steps st) = []
      then Inr (st\<lparr>dag_steps := mark_deadlock (dag_steps st)\<rparr>)
      else (case run_wave dag buildWork sched (ready_steps idx (dag_steps st)) st of
              Inl e \<Rightarrow> Inl e
            | Inr st' \<Rightarrow> wave_loop dag buildWork sched idx st'))"
  by pat_completeness auto
termination
  by (relation "measure (\<lambda>(dag, buildWork, sched, idx, st). pending_count (dag_steps st))")
     (simp_all add: run_wave_progress)

declare wave_loop.simps [simp del]

record PlanDagRunResult =
  result_waves :: nat
  stepsExecuted :: nat
  failedSteps :: "PlanStep list"

definition PlanDAGExecutor_run ::
  "'h PlanDAGExecutor \<Rightarrow> (nat \<Rightarrow> nat list) \<Rightarrow> Plan \<Rightarrow> AgentRunFactory \<Rightarrow> 'h \<Rightarrow> nat
     \<Rightarrow> (PlanDagRunResult \<times> Plan \<times> 'h \<times> nat) throws" where
  "PlanDAGExecutor_run dag sched plan buildWork h b =
     (case wave_loop dag buildWork sched (stepIndex (steps plan))
             \<lparr>dag_steps = steps plan, waves = 0, executed = 0, hook_state = h, batches = b\<rparr> of
        Inl e \<Rightarrow> Inl e
      | Inr st \<Rightarrow>
          Inr (\<lparr>result_waves = waves st, stepsExecuted = executed st,
                failedSteps = filter (\<lambda>s. status s = Some Error) (dag_steps st)\<rparr>,
               plan\<lparr>steps := dag_steps st\<rparr>, hook_state st, batches st))"

subsection \<open>Factories in general\<close>

text \<open>
  \<^verbatim>\<open>buildWork(step)\<close> is called with the step object of the plan, after its status was
  set to \<^verbatim>\<open>running\<close>, and whatever the factory writes to the object is what the
  executor reads afterwards.  A \<open>LiveRunFactory\<close> gives the work item and the step as the
  call leaves it.  Nothing else writes to the steps: a factory that writes to another step
  of the plan, and actions and hooks that write to the plan, are not covered.
\<close>

type_synonym LiveRunFactory = "PlanStep \<Rightarrow> AgentWork \<times> PlanStep"

text \<open>\<^verbatim>\<open>groupSteps.map((step) => buildWork(step))\<close>, each step replaced by what the
  factory made of it.\<close>

fun build_items_live :: "LiveRunFactory \<Rightarrow> nat list \<Rightarrow> PlanStep list \<Rightarrow> AgentWork list \<times> PlanStep list" where
  "build_items_live buildWork [] ss = ([], ss)"
| "build_items_live buildWork (i # rest) ss =
     (case buildWork (ss ! i) of
        (w, s') \<Rightarrow>
          (case build_items_live buildWork rest (ss[i := s']) of
             (ws, ss') \<Rightarrow> (w # ws, ss')))"

definition run_group_live ::
  "'h PlanDAGExecutor \<Rightarrow> LiveRunFactory \<Rightarrow> (nat \<Rightarrow> nat list) \<Rightarrow> nat list \<Rightarrow> 'h dag_state
     \<Rightarrow> 'h dag_state throws" where
  "run_group_live dag buildWork sched grp st =
     (case mark_running dag grp st of
        Inl e \<Rightarrow> Inl e
      | Inr st1 \<Rightarrow>
          (case build_items_live buildWork grp (dag_steps st1) of
             (workItems, ss) \<Rightarrow>
               (case runBatch (dag_parallelExecutor dag) (sched (batches st1)) workItems of
                  Inl e \<Rightarrow> Inl e
                | Inr summary \<Rightarrow>
                    apply_results dag grp (results summary)
                      (st1\<lparr>dag_steps := ss, batches := batches st1 + 1\<rparr>))))"

fun run_groups_live ::
  "'h PlanDAGExecutor \<Rightarrow> LiveRunFactory \<Rightarrow> (nat \<Rightarrow> nat list) \<Rightarrow> nat list list \<Rightarrow> 'h dag_state
     \<Rightarrow> 'h dag_state throws" where
  "run_groups_live dag buildWork sched [] st = Inr st"
| "run_groups_live dag buildWork sched (grp # rest) st =
     (case run_group_live dag buildWork sched grp st of
        Inl e \<Rightarrow> Inl e
      | Inr st1 \<Rightarrow> run_groups_live dag buildWork sched rest st1)"

definition run_wave_live ::
  "'h PlanDAGExecutor \<Rightarrow> LiveRunFactory \<Rightarrow> (nat \<Rightarrow> nat list) \<Rightarrow> nat list \<Rightarrow> 'h dag_state
     \<Rightarrow> 'h dag_state throws" where
  "run_wave_live dag buildWork sched ready st =
     (case call_wave_start dag (waves st) (map (\<lambda>i. dag_steps st ! i) ready) (hook_state st) of
        Inl e \<Rightarrow> Inl e
      | Inr h0 \<Rightarrow>
          (case run_groups_live dag buildWork sched (map snd (group_ready (dag_steps st) ready))
                  (st\<lparr>hook_state := h0\<rparr>) of
             Inl e \<Rightarrow> Inl e
           | Inr st1 \<Rightarrow>
               (case call_wave_complete dag (waves st1) (map (\<lambda>i. dag_steps st1 ! i) ready)
                       (hook_state st1) of
                  Inl e \<Rightarrow> Inl e
                | Inr h1 \<Rightarrow> Inr (st1\<lparr>hook_state := h1, waves := waves st1 + 1\<rparr>))))"

text \<open>
  \<^verbatim>\<open>while (true) { ... }\<close> with such a factory need not end: the factory can hand the
  step back as pending.  The loop is a partial function, and \<open>None\<close> is a run that never
  returns.
\<close>

partial_function (option) wave_loop_live ::
  "'h PlanDAGExecutor \<Rightarrow> LiveRunFactory \<Rightarrow> (nat \<Rightarrow> nat list) \<Rightarrow> (string \<rightharpoonup> nat) \<Rightarrow> 'h dag_state
     \<Rightarrow> 'h dag_state throws option" where
  "wave_loop_live dag buildWork sched idx st =
     (if ready_steps idx (dag_steps st) = []
      then Some (Inr (st\<lparr>dag_steps := mark_deadlock (dag_steps st)\<rparr>))
      else (case run_wave_live dag buildWork sched (ready_steps idx (dag_steps st)) st of
              Inl e \<Rightarrow> Some (Inl e)
            | Inr st' \<Rightarrow> wave_loop_live dag buildWork sched idx st'))"

definition PlanDAGExecutor_run_live ::
  "'h PlanDAGExecutor \<Rightarrow> (nat \<Rightarrow> nat list) \<Rightarrow> Plan \<Rightarrow> LiveRunFactory \<Rightarrow> 'h \<Rightarrow> nat
     \<Rightarrow> (PlanDagRunResult \<times> Plan \<times> 'h \<times> nat) throws option" where
  "PlanDAGExecutor_run_live dag sched pl buildWork h b =
     (case wave_loop_live dag buildWork sched (stepIndex (steps pl))
             \<lparr>dag_steps = steps pl, waves = 0, executed = 0, hook_state = h, batches = b\<rparr> of
        None \<Rightarrow> None
      | Some (Inl e) \<Rightarrow> Some (Inl e)
      | Some (Inr st) \<Rightarrow>
          Some (Inr (\<lparr>result_waves = waves st, stepsExecuted = executed st,
                      failedSteps = filter (\<lambda>s. status s = Some Error) (dag_steps st)\<rparr>,
                     pl\<lparr>steps := dag_steps st\<rparr>, hook_state st, batches st)))"

text \<open>
  The factory that writes \<^verbatim>\<open>agentId\<close> only, as a factory in general; and the
  factories that do not hand a running step back as pending (or without status).
\<close>

definition agentId_only :: "AgentRunFactory \<Rightarrow> LiveRunFactory" where
  "agentId_only buildWork s = (fst (buildWork s), s\<lparr>step_agentId := snd (buildWork s)\<rparr>)"

definition keeps_started :: "LiveRunFactory \<Rightarrow> bool" where
  "keeps_started buildWork = (\<forall>s. status s = Some Running \<longrightarrow> \<not> is_pending (snd (buildWork s)))"

section \<open>CheckpointTagging.ts\<close>

record CheckpointTagMeta =
  meta_agentId :: string
  meta_phase :: phase
  meta_label :: "string option"

definition phase_name :: "phase \<Rightarrow> string" where
  "phase_name p = (case p of planning \<Rightarrow> ''planning'' | execution \<Rightarrow> ''execution'' | reflection \<Rightarrow> ''reflection'')"

text \<open>\<^verbatim>\<open>v.replace(/\s+/g, "-").slice(0, 64)\<close>\<close>

fun dash_spaces :: "bool \<Rightarrow> string \<Rightarrow> string" where
  "dash_spaces in_run [] = []"
| "dash_spaces in_run (c # cs) =
     (if is_space c then (if in_run then dash_spaces True cs else CHR ''-'' # dash_spaces True cs)
      else c # dash_spaces False cs)"

definition sanitize :: "string \<Rightarrow> string" where
  "sanitize v = take 64 (dash_spaces False v)"

definition formatCheckpointPrefix :: "CheckpointTagMeta \<Rightarrow> string" where
  "formatCheckpointPrefix meta =
     ''[crew]'' @ ''[agent='' @ meta_agentId meta @ '']'' @ ''[phase='' @ phase_name (meta_phase meta) @ '']''
     @ (if truthy_str (meta_label meta) then ''[label='' @ sanitize (the (meta_label meta)) @ '']'' else '''')"

text \<open>
  The tracker's \<^verbatim>\<open>commit\<close> may throw; \<^verbatim>\<open>withCheckpointTag\<close> commits after the work
  has returned, swallows what the commit throws and returns the work's result.
\<close>

type_synonym CheckpointTrackerLike = "string \<Rightarrow> string option throws"

definition CheckpointTagging_withCheckpointTag ::
  "CheckpointTrackerLike option \<Rightarrow> CheckpointTagMeta \<Rightarrow> 'a throws \<Rightarrow> 'a throws" where
  "CheckpointTagging_withCheckpointTag tracker meta fn =
     (case fn of
        Inl e \<Rightarrow> Inl e
      | Inr r \<Rightarrow>
          (case tracker of
             None \<Rightarrow> Inr r
           | Some commit \<Rightarrow> (case commit (formatCheckpointPrefix meta) of Inl _ \<Rightarrow> Inr r | Inr _ \<Rightarrow> Inr r)))"

definition createCheckpointTagWrapper ::
  "CheckpointTrackerLike option \<Rightarrow> string \<Rightarrow> phase \<Rightarrow> 'a throws \<Rightarrow> 'a throws" where
  "createCheckpointTagWrapper tracker agentId p fn =
     CheckpointTagging_withCheckpointTag tracker
       \<lparr>meta_agentId = agentId, meta_phase = p, meta_label = None\<rparr> fn"

section \<open>Crew.ts and CrewOrchestrator.ts\<close>

record CrewAgent =
  agent_id :: string
  agent_name :: string
  agent_role :: string
  enabled :: "bool option"
  agent_allowedToolIds :: "string list option"
  agent_parallelGroup :: "string option"
  reflectionRole :: "bool option"

record Crew =
  crew_id :: string
  crew_name :: string
  agents :: "CrewAgent list"
  crew_default :: "bool option"
  executionPolicies :: "CrewExecutionPolicies option"

datatype generated_via = via_planner | via_skeleton

text \<open>
  The configuration.  \<^verbatim>\<open>getGlobalState\<close> is read for two keys only, \<^verbatim>\<open>crews\<close> and
  \<^verbatim>\<open>selectedCrewId\<close>, which stand here for the accessor.
\<close>

record CrewOrchestratorConfig =
  llm :: LlmClient
  state_crews :: "Crew list option"
  state_selectedCrewId :: "string option"
  checkpointTracker :: "CheckpointTrackerLike option"
  routeDecisionMaxAttempts :: "int option"
  onRouteDecisionAttempt :: "attempt_hook option"
  onParallelBatchComplete :: "(ParallelBatchSummary \<Rightarrow> string option) option"
  onPlanAttempt :: "attempt_hook option"
  onPlanGenerated :: "(Plan \<Rightarrow> generated_via \<Rightarrow> string option) option"
  onPlanStepUpdate :: "(PlanStep \<Rightarrow> PlanStepEvent \<Rightarrow> string option) option"
  onPlanWaveComplete :: "(nat \<Rightarrow> PlanStep list \<Rightarrow> string option) option"

record OrchestratorRunOptions =
  goal :: string
  recentNotes :: "string option"

record OrchestratorRunResult =
  result_strategy :: RouteStrategy
  routeDecision :: RouteDecision
  planGenerated :: bool
  plan :: "Plan option"
  parallelBatchesExecuted :: nat
  terminationEarly :: bool
  terminationReason :: "TerminationReason option"
  result_terminationDetail :: "string option"
  result_notes :: string

record CrewOrchestrator =
  cfg :: CrewOrchestratorConfig
  crew :: "Crew option"
  orch_executionPolicies :: "CrewExecutionPolicies option"
  allowlist :: "(string \<rightharpoonup> AgentToolPolicy) option"
  parallelExecutor :: "ParallelExecutor option"
  termination_state :: TerminationState
  memory :: ShortTermMemory

text \<open>
  What a run takes from outside the orchestrator: the built-in \<^verbatim>\<open>JSON.parse\<close>, the
  clock, and for each batch of the run the order in which its actions finish.
\<close>

record world =
  JSON_parse :: JSON_parser
  now :: nat
  batch_sched :: "nat \<Rightarrow> nat list"

definition buildPoliciesFromAgents :: "CrewAgent list \<Rightarrow> AgentToolPolicy list" where
  "buildPoliciesFromAgents as =
     map (\<lambda>a. \<lparr>policy_agentId = agent_id a,
                allowedToolIds = (case agent_allowedToolIds a of
                                    None \<Rightarrow> None
                                  | Some l \<Rightarrow> if l = [] then None else Some l)\<rparr>) as"

definition select_crew :: "Crew list \<Rightarrow> string option \<Rightarrow> Crew option" where
  "select_crew crews selectedCrewId =
     (case find (\<lambda>c. Some (crew_id c) = selectedCrewId) crews of
        Some c \<Rightarrow> Some c
      | None \<Rightarrow>
          (case find (\<lambda>c. crew_default c = Some True) crews of
             Some c \<Rightarrow> Some c
           | None \<Rightarrow> (case crews of [] \<Rightarrow> None | c # _ \<Rightarrow> Some c)))"

definition policy_maxConcurrent :: "CrewExecutionPolicies option \<Rightarrow> int" where
  "policy_maxConcurrent pol =
     (case pol of
        None \<Rightarrow> 1
      | Some p \<Rightarrow>
          (case policy_parallel p of
             None \<Rightarrow> 1
           | Some q \<Rightarrow>
               (case maxConcurrentAgents q of
                  None \<Rightarrow> 1
                | Some n \<Rightarrow> if n \<noteq> 0 \<and> n > 0 then n else 1)))"

definition initial_termination :: TerminationState where
  "initial_termination =
     \<lparr>agentLoopCounts = Map.empty, reflectionCycles = 0, terminated = False,
      termination_reason = None, terminationDetail = None\<rparr>"

text \<open>The constructor with \<^verbatim>\<open>initializeCrewContext\<close>.\<close>

definition createCrewOrchestrator :: "CrewOrchestratorConfig \<Rightarrow> CrewOrchestrator" where
  "createCrewOrchestrator c =
     (let crews = (case state_crews c of None \<Rightarrow> [] | Some cs \<Rightarrow> cs);
          blank = \<lparr>cfg = c, crew = None, orch_executionPolicies = None, allowlist = None,
                   parallelExecutor = None, termination_state = initial_termination,
                   memory = new_ShortTermMemory\<rparr>
      in case select_crew crews (state_selectedCrewId c) of
           None \<Rightarrow> blank
         | Some cr \<Rightarrow>
             blank\<lparr>crew := Some cr,
                   orch_executionPolicies := executionPolicies cr,
                   allowlist := Some (ToolAllowlistEnforcer (buildPoliciesFromAgents (agents cr))),
                   parallelExecutor :=
                     Some \<lparr>maxConcurrent = policy_maxConcurrent (executionPolicies cr),
                           onResult = None, onStartBatch = None,
                           onFinishBatch = Some (\<lambda>summary. call_hook (onParallelBatchComplete c) summary),
                           withCheckpointTag = Some (createCheckpointTagWrapper (checkpointTracker c))\<rparr>\<rparr>)"

text \<open>The error \<^verbatim>\<open>acquireRouteDecision\<close> throws when its attempts are used up.\<close>

definition route_failure :: "int \<Rightarrow> string option \<Rightarrow> string" where
  "route_failure maxAttempts lastError =
     ''CrewOrchestrator: Failed to parse route decision after '' @ String_int maxAttempts
     @ '' attempts. Last error: '' @ (case lastError of None \<Rightarrow> ''undefined'' | Some e \<Rightarrow> e)"

text \<open>
  The attempt loop of \<^verbatim>\<open>acquireRouteDecision\<close>, which returns from inside the loop on
  success.  The result also gives the number of calls the client has received and the
  message sequence when the loop is left.
\<close>

function route_attempts ::
  "JSON_parser \<Rightarrow> CrewOrchestratorConfig \<Rightarrow> int \<Rightarrow> nat \<Rightarrow> string option \<Rightarrow> nat
     \<Rightarrow> LlmChatMessage list \<Rightarrow> RouteDecision throws \<times> nat \<times> LlmChatMessage list" where
  "route_attempts parse c maxAttempts attempt lastError calls messages =
     (if int attempt \<le> maxAttempts then
        (case llm c calls messages of
           Inl e \<Rightarrow> (Inl e, calls + 1, messages)
         | Inr raw \<Rightarrow>
             (case (case parseRouteDecision parse raw of
                      Inl e \<Rightarrow> Inl e
                    | Inr decision \<Rightarrow>
                        (case call_attempt_hook (onRouteDecisionAttempt c) raw None attempt of
                           Some e \<Rightarrow> Inl e
                         | None \<Rightarrow> Inr decision)) of
                Inr decision \<Rightarrow> (Inr decision, calls + 1, messages)
              | Inl e \<Rightarrow>
                  (case call_attempt_hook (onRouteDecisionAttempt c) raw (Some e) attempt of
                     Some e' \<Rightarrow> (Inl e', calls + 1, messages)
                   | None \<Rightarrow>
                       route_attempts parse c maxAttempts (attempt + 1) (Some e) (calls + 1)
                         (if int attempt < maxAttempts
                          then messages @ [\<lparr>msg_role = assistant, content = raw\<rparr>,
                                           \<lparr>msg_role = user, content = buildRepairInstruction e\<rparr>]
                          else messages))))
      else (Inl (route_failure maxAttempts lastError), calls, messages))"
  by pat_completeness auto
termination
  by (relation "measure (\<lambda>(parse, c, maxAttempts, attempt, rest). nat (maxAttempts + 1 - int attempt))")
     auto

declare route_attempts.simps [simp del]

definition route_messages :: "CrewOrchestrator \<Rightarrow> OrchestratorRunOptions \<Rightarrow> LlmChatMessage list" where
  "route_messages orch options =
     [\<lparr>msg_role = system,
       content = ''You are an orchestration assistant optimizing multi-agent strategies.''\<rparr>,
      \<lparr>msg_role = user,
       content = buildRouteDecisionPrompt
                   \<lparr>rd_goal = goal options,
                    rd_crewName = map_option crew_name (crew orch),
                    rd_agentSummaries =
                      Some (case crew orch of
                              None \<Rightarrow> []
                            | Some cr \<Rightarrow>
                                map (\<lambda>a. \<lparr>summary_id = agent_id a, summary_role = agent_role a,
                                           summary_parallelGroup = None\<rparr>) (agents cr)),
                    rd_recentNotes = recentNotes options\<rparr>\<rparr>]"

definition route_maxAttempts :: "CrewOrchestratorConfig \<Rightarrow> int" where
  "route_maxAttempts c =
     (case routeDecisionMaxAttempts c of None \<Rightarrow> 3 | Some n \<Rightarrow> if n = 0 then 3 else n)"

definition acquireRouteDecision ::
  "world \<Rightarrow> CrewOrchestrator \<Rightarrow> OrchestratorRunOptions \<Rightarrow> nat
     \<Rightarrow> RouteDecision throws \<times> nat \<times> LlmChatMessage list" where
  "acquireRouteDecision w orch options calls =
     route_attempts (JSON_parse w) (cfg orch) (route_maxAttempts (cfg orch)) 1 None calls
       (route_messages orch options)"

definition is_worker :: "CrewAgent \<Rightarrow> bool" where
  "is_worker a = (enabled a \<noteq> Some False \<and> reflectionRole a \<noteq> Some True)"

definition executeDirectExecution ::
  "world \<Rightarrow> nat \<Rightarrow> CrewOrchestrator \<Rightarrow> (nat \<times> CrewOrchestrator \<times> nat) throws" where
  "executeDirectExecution w b orch =
     (if checkTermination (termination_state orch) then Inr (0, orch, b)
      else case crew orch of
        None \<Rightarrow> Inr (0, orch, b)
      | Some cr \<Rightarrow>
          (case parallelExecutor orch of
             None \<Rightarrow> Inr (0, orch, b)
           | Some ex \<Rightarrow>
               (let workAgents = filter is_worker (agents cr) in
                if length workAgents = 0 then Inr (0, orch, b)
                else
                  (let fakeWork =
                         map (\<lambda>agent.
                                \<lparr>work_agentId = agent_id agent, work_phase = execution,
                                 label = Some ''skeleton-step'',
                                 run = Inr \<lparr>res_agentId = agent_id agent, res_phase = execution,
                                            success = True,
                                            res_output = Some (JObj [(''placeholder'', JBool True)]),
                                            res_errorMessage = None\<rparr>\<rparr>) workAgents
                   in case runBatch ex (batch_sched w b) fakeWork of
                        Inl e \<Rightarrow> Inl e
                      | Inr _ \<Rightarrow>
                          Inr (1,
                               orch\<lparr>memory :=
                                      appendObservation
                                        (''Executed direct batch with '' @ dec_nat (length fakeWork)
                                         @ '' placeholder steps'') True (memory orch)\<rparr>,
                               b + 1)))))"

definition orchestrator_step_hook ::
  "CrewOrchestratorConfig \<Rightarrow> PlanStep \<Rightarrow> PlanStepEvent \<Rightarrow> ShortTermMemory \<Rightarrow> ShortTermMemory throws" where
  "orchestrator_step_hook c st ev m =
     (let m1 = (case ev of
                  ev_start \<Rightarrow> appendThought (''Step '' @ step_id st @ '' started'') m
                | ev_success \<Rightarrow>
                    appendObservation (''Step '' @ step_id st @ '' completed: '' @ description st) True m
                | ev_error \<Rightarrow>
                    appendObservation
                      (''Step '' @ step_id st @ '' failed: ''
                       @ (case errorMessage st of None \<Rightarrow> ''undefined'' | Some e \<Rightarrow> e)) False m)
      in case (case onPlanStepUpdate c of None \<Rightarrow> None | Some f \<Rightarrow> f st ev) of
           Some e \<Rightarrow> Inl e
         | None \<Rightarrow> Inr m1)"

definition orchestrator_wave_hook ::
  "CrewOrchestratorConfig \<Rightarrow> nat \<Rightarrow> PlanStep list \<Rightarrow> ShortTermMemory \<Rightarrow> ShortTermMemory throws" where
  "orchestrator_wave_hook c waveIndex sts m =
     (case (case onPlanWaveComplete c of None \<Rightarrow> None | Some f \<Rightarrow> f waveIndex sts) of
        Some e \<Rightarrow> Inl e
      | None \<Rightarrow>
          Inr (appendThought (''Wave '' @ dec_nat waveIndex @ '' complete ('' @ dec_nat (length sts)
                              @ '' steps).'') m))"

text \<open>\<^verbatim>\<open>buildWork\<close> of \<^verbatim>\<open>executePlanThenParallel\<close>, which assigns the default agent
  to a step without one.\<close>

definition orchestrator_buildWork :: "CrewAgent option \<Rightarrow> AgentRunFactory" where
  "orchestrator_buildWork defaultAgent st =
     (let aid = (if \<not> truthy_str (step_agentId st) \<and> defaultAgent \<noteq> None
                 then Some (agent_id (the defaultAgent)) else step_agentId st);
          agentId = or_else aid ''unassigned''
      in (\<lparr>work_agentId = agentId, work_phase = execution, label = Some (description st),
           run = Inr \<lparr>res_agentId = agentId, res_phase = execution, success = True,
                      res_output = Some (JObj [(''placeholder'', JStr ''planned-exec''),
                                               (''stepId'', JStr (step_id st))]),
                      res_errorMessage = None\<rparr>\<rparr>,
          aid))"

text \<open>The executor \<^verbatim>\<open>executePlanThenParallel\<close> builds, its hooks writing to the memory.\<close>

definition orchestrator_dag :: "CrewOrchestratorConfig \<Rightarrow> ParallelExecutor \<Rightarrow> ShortTermMemory PlanDAGExecutor" where
  "orchestrator_dag c ex =
     \<lparr>dag_parallelExecutor = ex,
      dag_hooks = Some \<lparr>onStepUpdate = Some (orchestrator_step_hook c),
                        onWaveStart = None,
                        onWaveComplete = Some (orchestrator_wave_hook c)\<rparr>\<rparr>"

definition executePlanThenParallel ::
  "world \<Rightarrow> nat \<Rightarrow> Plan \<Rightarrow> CrewOrchestrator \<Rightarrow> (nat \<times> Plan \<times> CrewOrchestrator \<times> nat) throws" where
  "executePlanThenParallel w b p orch =
     (if checkTermination (termination_state orch) then Inr (0, p, orch, b)
      else case crew orch of
        None \<Rightarrow> Inr (0, p, orch, b)
      | Some cr \<Rightarrow>
          (case parallelExecutor orch of
             None \<Rightarrow> Inr (0, p, orch, b)
           | Some ex \<Rightarrow>
               if length (steps p) = 0 then Inr (0, p, orch, b)
               else
                 (let dag = orchestrator_dag (cfg orch) ex;
                      defaultAgent = find is_worker (agents cr)
                  in case PlanDAGExecutor_run dag (batch_sched w) p (orchestrator_buildWork defaultAgent)
                            (memory orch) b of
                       Inl e \<Rightarrow> Inl e
                     | Inr (result, p', m, b') \<Rightarrow>
                         (let doneCount = length (filter (\<lambda>s. status s = Some Done) (steps p'));
                              errorCount = length (filter (\<lambda>s. status s = Some Error) (steps p'))
                          in Inr (result_waves result, p',
                                  orch\<lparr>memory :=
                                         appendThought
                                           (''Plan execution summary: '' @ dec_nat doneCount @ '' done, ''
                                            @ dec_nat errorCount @ '' error, ''
                                            @ dec_nat (result_waves result) @ '' waves.'') m\<rparr>,
                                  b')))))"

fun skeleton_steps :: "string \<Rightarrow> nat \<Rightarrow> CrewAgent list \<Rightarrow> PlanStep list" where
  "skeleton_steps g idx [] = []"
| "skeleton_steps g idx (a # rest) =
     \<lparr>step_id = ''step_'' @ dec_nat (idx + 1) @ ''_'' @ agent_id a,
      description = ''Have agent '' @ sq @ (if agent_role a = [] then agent_id a else agent_role a) @ sq
                    @ '' contribute toward goal: '' @ g,
      step_agentId = Some (agent_id a),
      step_parallelGroup = agent_parallelGroup a,
      dependsOn = Some [],
      status = Some Pending,
      errorMessage = None\<rparr> # skeleton_steps g (idx + 1) rest"

definition generateSkeletonPlan :: "world \<Rightarrow> CrewOrchestrator \<Rightarrow> string \<Rightarrow> Plan" where
  "generateSkeletonPlan w orch g =
     (case crew orch of
        None \<Rightarrow> \<lparr>plan_id = ''plan_none'', createdTs = now w, plan_rationale = Some ''No crew'', steps = []\<rparr>
      | Some cr \<Rightarrow>
          \<lparr>plan_id = ''plan_'' @ dec_nat (now w), createdTs = now w,
           plan_rationale = Some ''Skeleton auto-generated plan (no real planner yet).'',
           steps = skeleton_steps g 0 (filter is_worker (agents cr))\<rparr>)"

text \<open>
  The \<^verbatim>\<open>plan_then_parallel\<close> case of \<^verbatim>\<open>run\<close> up to the call of
  \<^verbatim>\<open>executePlanThenParallel\<close>: the \<^verbatim>\<open>try\<close> block with the planner, and the
  \<^verbatim>\<open>catch\<close> block with the skeleton plan, which is entered by whatever the \<^verbatim>\<open>try\<close>
  block throws (the planner, or the \<^verbatim>\<open>onPlanGenerated\<close> hook).
\<close>

definition planner_options :: "OrchestratorRunOptions \<Rightarrow> Crew \<Rightarrow> CrewOrchestrator \<Rightarrow> PlannerInvokeOptions" where
  "planner_options options cr orch =
     \<lparr>pl_goal = goal options, pl_recentNotes = recentNotes options,
      pl_crewName = Some (crew_name cr),
      pl_agentSummaries =
        map (\<lambda>a. \<lparr>summary_id = agent_id a,
                   summary_role = (if agent_role a = [] then agent_id a else agent_role a),
                   summary_parallelGroup = agent_parallelGroup a\<rparr>) (agents cr),
      pl_llm = llm (cfg orch), pl_maxAttempts = None, pl_maxSteps = None,
      pl_onAttempt = onPlanAttempt (cfg orch)\<rparr>"

definition obtain_plan ::
  "world \<Rightarrow> OrchestratorRunOptions \<Rightarrow> nat \<Rightarrow> Crew \<Rightarrow> CrewOrchestrator
     \<Rightarrow> (Plan \<times> CrewOrchestrator \<times> nat) throws" where
  "obtain_plan w options calls cr orch =
     (let planned = invokePlanner (JSON_parse w) (now w) (planner_options options cr orch) calls;
          tried = (case fst planned of
                     Inl e \<Rightarrow> Inl e
                   | Inr p \<Rightarrow>
                       (case (case onPlanGenerated (cfg orch) of None \<Rightarrow> None | Some f \<Rightarrow> f p via_planner) of
                          Some e \<Rightarrow> Inl e
                        | None \<Rightarrow> Inr p))
      in case tried of
           Inr p \<Rightarrow>
             (let m1 = appendThought (''Planner produced '' @ dec_nat (length (steps p)) @ '' steps.'')
                         (memory orch);
                  m2 = (if truthy_str (plan_rationale p)
                        then appendThought (''Plan rationale: '' @ take 200 (the (plan_rationale p))) m1
                        else m1)
              in Inr (p, orch\<lparr>memory := m2\<rparr>, snd planned))
         | Inl _ \<Rightarrow>
             (let p = generateSkeletonPlan w orch (goal options)
              in case (case onPlanGenerated (cfg orch) of None \<Rightarrow> None | Some f \<Rightarrow> f p via_skeleton) of
                   Some e \<Rightarrow> Inl e
                 | None \<Rightarrow>
                     (let m1 = (if truthy_str (plan_rationale p)
                                then appendThought
                                       (''Fallback plan rationale: '' @ take 200 (the (plan_rationale p)))
                                       (memory orch)
                                else memory orch);
                          m2 = appendObservation ''Planner failed, using skeleton plan fallback'' False m1
                      in Inr (p, orch\<lparr>memory := m2\<rparr>, snd planned))))"

text \<open>
  \<^verbatim>\<open>run\<close>.  \<open>calls\<close> is the number of calls the client has received before the run.  The
  orchestrator after the run is returned with the result; what it holds after a run that
  threw is not modelled.
\<close>

definition run ::
  "world \<Rightarrow> OrchestratorRunOptions \<Rightarrow> nat \<Rightarrow> CrewOrchestrator
     \<Rightarrow> (OrchestratorRunResult \<times> CrewOrchestrator) throws" where
  "run w options calls orch =
     (case crew orch of
        None \<Rightarrow> Inl ''CrewOrchestrator: No crew available in global state.''
      | Some cr \<Rightarrow>
          (case acquireRouteDecision w orch options calls of
             (Inl e, _, _) \<Rightarrow> Inl e
           | (Inr decision, calls1, _) \<Rightarrow>
               (case (case strategy decision of
                        plan_then_parallel \<Rightarrow>
                          (case obtain_plan w options calls1 cr orch of
                             Inl e \<Rightarrow> Inl e
                           | Inr (p, orch1, _) \<Rightarrow>
                               (case executePlanThenParallel w 0 p orch1 of
                                  Inl e \<Rightarrow> Inl e
                                | Inr (n, p', orch2, _) \<Rightarrow> Inr (True, Some p', n, orch2)))
                      | direct_execution \<Rightarrow>
                          (case executeDirectExecution w 0 orch of
                             Inl e \<Rightarrow> Inl e
                           | Inr (n, orch1, _) \<Rightarrow> Inr (False, None, n, orch1))) of
                  Inl e \<Rightarrow> Inl e
                | Inr (generated, p, n, orch') \<Rightarrow>
                    Inr (\<lparr>result_strategy = strategy decision,
                          routeDecision = decision,
                          planGenerated = generated,
                          plan = p,
                          parallelBatchesExecuted = n,
                          terminationEarly = terminated (termination_state orch'),
                          terminationReason =
                            (if terminated (termination_state orch')
                             then termination_reason (termination_state orch') else None),
                          result_terminationDetail =
                            (if terminated (termination_state orch')
                             then terminationDetail (termination_state orch') else None),
                          result_notes = ''Skeleton execution path complete (no actual agent steps yet).''\<rparr>,
                         orch'))))"



definition built_executor :: "CrewOrchestratorConfig \<Rightarrow> ParallelExecutor \<Rightarrow> bool" where
  "built_executor c ex =
     (onResult ex = None \<and> onStartBatch ex = None
      \<and> onFinishBatch ex = Some (\<lambda>summary. call_hook (onParallelBatchComplete c) summary))"

definition built_orchestrator :: "CrewOrchestrator \<Rightarrow> bool" where
  "built_orchestrator orch =
     (case parallelExecutor orch of None \<Rightarrow> True | Some ex \<Rightarrow> built_executor (cfg orch) ex)"












text \<open>Sample data for the closed evaluations below.\<close>

definition sample_step :: "string \<Rightarrow> string list \<Rightarrow> PlanStep" where
  "sample_step i deps =
     \<lparr>step_id = i, description = ''Step '' @ i, step_agentId = Some i, step_parallelGroup = None,
      dependsOn = Some deps, status = Some Pending, errorMessage = None\<rparr>"

text \<open>The factory of the repository's executor tests: succeeding work under the agent id
  \<^verbatim>\<open>step.agentId || step.id\<close>; the step is not written to.\<close>

definition sample_factory :: AgentRunFactory where
  "sample_factory s =
     (\<lparr>work_agentId = or_else (step_agentId s) (step_id s), work_phase = execution, label = None,
       run = Inr \<lparr>res_agentId = or_else (step_agentId s) (step_id s), res_phase = execution,
                  success = True, res_output = None, res_errorMessage = None\<rparr>\<rparr>,
      step_agentId s)"

definition sample_raising_work :: "string \<Rightarrow> AgentWork" where
  "sample_raising_work a =
     \<lparr>work_agentId = a, work_phase = execution, label = None, run = Inl ''action failed''\<rparr>"

definition sample_executor :: "int \<Rightarrow> ParallelExecutor" where
  "sample_executor n =
     \<lparr>maxConcurrent = n, onResult = None, onStartBatch = None, onFinishBatch = None,
      withCheckpointTag = None\<rparr>"

definition sample_dag :: "unit PlanDAGExecutor" where
  "sample_dag = \<lparr>dag_parallelExecutor = sample_executor 2, dag_hooks = None\<rparr>"

definition sample_start :: "PlanStep list \<Rightarrow> unit dag_state" where
  "sample_start ss = \<lparr>dag_steps = ss, waves = 0, executed = 0, hook_state = (), batches = 0\<rparr>"

text \<open>A plan with a dependency cycle between its second and third step.\<close>

definition sample_cyclic_steps :: "PlanStep list" where
  "sample_cyclic_steps =
     [sample_step ''s1'' [], sample_step ''s2'' [''s3''], sample_step ''s3'' [''s2''],
      sample_step ''s4'' [''s1'']]"

text \<open>
  The crew, the client and the texts of the repository's orchestrator test: the client
  answers its first call with a valid route decision and every later call with text that
  is not JSON.  \<open>sample_JSON_parse\<close> is \<^verbatim>\<open>JSON.parse\<close> on the texts that occur.
\<close>

definition sample_agent :: "string \<Rightarrow> CrewAgent" where
  "sample_agent i =
     \<lparr>agent_id = i, agent_name = i, agent_role = ''General worker'', enabled = Some True,
      agent_allowedToolIds = None, agent_parallelGroup = Some ''workers'', reflectionRole = None\<rparr>"

definition sample_crew :: Crew where
  "sample_crew =
     \<lparr>crew_id = ''crew1'', crew_name = ''Test Crew'', agents = [sample_agent ''workerA'', sample_agent ''workerB''],
      crew_default = None, executionPolicies = None\<rparr>"

definition sample_route_text :: string where
  \<open>sample_route_text = ''{"strategy":"plan_then_parallel","rationale":"Need planning"}''\<close>

definition sample_JSON_parse :: JSON_parser where
  "sample_JSON_parse s =
     (if s = sample_route_text
      then Inr (JObj [(''strategy'', JStr ''plan_then_parallel''), (''rationale'', JStr ''Need planning'')])
      else Inl ''Unexpected token'')"

definition sample_llm :: LlmClient where
  "sample_llm calls messages = (if calls = 0 then Inr sample_route_text else Inr ''garbled planner output'')"

definition sample_cfg :: CrewOrchestratorConfig where
  "sample_cfg =
     \<lparr>llm = sample_llm, state_crews = Some [sample_crew], state_selectedCrewId = Some ''crew1'',
      checkpointTracker = None, routeDecisionMaxAttempts = Some 1, onRouteDecisionAttempt = None,
      onParallelBatchComplete = None, onPlanAttempt = None, onPlanGenerated = None,
      onPlanStepUpdate = None, onPlanWaveComplete = None\<rparr>"

definition sample_world :: world where
  "sample_world = \<lparr>JSON_parse = sample_JSON_parse, now = 0, batch_sched = (\<lambda>_. [])\<rparr>"

definition sample_options :: OrchestratorRunOptions where
  "sample_options = \<lparr>goal = ''Build feature X'', recentNotes = None\<rparr>"

definition sample_garbled_cfg :: CrewOrchestratorConfig where
  "sample_garbled_cfg =
     sample_cfg\<lparr>llm := (\<lambda>calls messages. Inr ''garbled planner output''),
                routeDecisionMaxAttempts := Some 2\<rparr>"

definition sample_hook_cfg :: CrewOrchestratorConfig where
  "sample_hook_cfg =
     sample_cfg\<lparr>routeDecisionMaxAttempts := Some 2,
                onRouteDecisionAttempt :=
                  Some (\<lambda>raw err attempt. if err = None then Some ''telemetry unavailable'' else None)\<rparr>"



text \<open>
  The steps of the executor tests, which have no \<^verbatim>\<open>agentId\<close>; the plan of the test
  with a dependency on a missing step; and the plan with the dependency cycle.
\<close>

definition sample_test_step :: "string \<Rightarrow> string list \<Rightarrow> PlanStep" where
  "sample_test_step i deps =
     \<lparr>step_id = i, description = ''Step '' @ i, step_agentId = None, step_parallelGroup = None,
      dependsOn = Some deps, status = Some Pending, errorMessage = None\<rparr>"

definition sample_dangling_plan :: Plan where
  "sample_dangling_plan =
     \<lparr>plan_id = ''p3'', createdTs = 0, plan_rationale = Some ''deadlock'',
      steps = [sample_test_step ''s1'' [], sample_test_step ''s2'' [''sX'']]\<rparr>"

definition sample_cyclic_plan :: Plan where
  "sample_cyclic_plan =
     \<lparr>plan_id = ''p4'', createdTs = 0, plan_rationale = Some ''cycle'', steps = sample_cyclic_steps\<rparr>"

text \<open>
  A factory whose action succeeds at once under the agent id \<^verbatim>\<open>x\<close> and which sets the
  status of the step it is handed back to \<^verbatim>\<open>pending\<close>; and a plan of one step.
\<close>

definition sample_resetting_factory :: LiveRunFactory where
  "sample_resetting_factory s =
     (\<lparr>work_agentId = ''x'', work_phase = execution, label = None,
       run = Inr \<lparr>res_agentId = ''x'', res_phase = execution, success = True, res_output = None,
                  res_errorMessage = None\<rparr>\<rparr>,
      s\<lparr>status := Some Pending\<rparr>)"

definition sample_single_plan :: Plan where
  "sample_single_plan =
     \<lparr>plan_id = ''p5'', createdTs = 0, plan_rationale = Some ''single'',
      steps = [sample_test_step ''s1'' []]\<rparr>"

section \<open>Properties\<close>

subsection \<open>Planner: step ids\<close>

text \<open>
  C1.  The uniqueness pass renames a colliding step to \<^verbatim>\<open>s{idx + 1}\<close> without looking
  whether that id is taken.  The plan decision with two steps that both carry the id
  \<^verbatim>\<open>s2\<close> passes the validation, and both steps still have the id \<^verbatim>\<open>s2\<close> in the
  plan returned: the second step's positional id is \<^verbatim>\<open>s2\<close> again.
\<close>

theorem C1_colliding_ids_survive:
  "planDecision_of_json
     (JObj [(''rationale'', JStr ''r''),
            (''steps'', JArr [JObj [(''id'', JStr ''s2''), (''description'', JStr ''a'')],
                              JObj [(''id'', JStr ''s2''), (''description'', JStr ''b'')]])])
     = Inr \<lparr>decision_rationale = ''r'',
            decision_steps =
              [\<lparr>raw_id = Some ''s2'', raw_description = ''a'', raw_agentId = None,
                raw_parallelGroup = None, raw_dependsOn = None\<rparr>,
               \<lparr>raw_id = Some ''s2'', raw_description = ''b'', raw_agentId = None,
                raw_parallelGroup = None, raw_dependsOn = None\<rparr>]\<rparr>
   \<and> map step_id
         (steps (plan_of_decision 0
            \<lparr>decision_rationale = ''r'',
             decision_steps =
               [\<lparr>raw_id = Some ''s2'', raw_description = ''a'', raw_agentId = None,
                 raw_parallelGroup = None, raw_dependsOn = None\<rparr>,
                \<lparr>raw_id = Some ''s2'', raw_description = ''b'', raw_agentId = None,
                 raw_parallelGroup = None, raw_dependsOn = None\<rparr>]\<rparr>))
       = [''s2'', ''s2'']"
  by (simp add: planDecision_of_json_def PLAN_REQUIRED_KEYS_def js_get_def trim_def is_space_def
        raw_step_of_json_def string_field_def js_truthy_def plan_of_decision_def
        normalizeSteps_def sequential_id_def dec_nat.simps digit_char_def)

subsection \<open>Parallel batch executor\<close>











text \<open>
  Two further ways in which the summary does not hold one result per item; the amended
  statement takes no position on either.  A throwing \<^verbatim>\<open>onResult\<close> hook is caught by
  the \<^verbatim>\<open>catch\<close> callback, which pushes a second, failed result for the same item.
  And \<^verbatim>\<open>Promise.all\<close> awaits only the promises launched at the start, so with more
  items than the ceiling the batch can resume before the queued items have produced a
  result.
\<close>

lemma runBatch_onResult_throw_pushes_twice:
  "map res_agentId
     (case runBatch ((sample_executor 1)\<lparr>onResult := Some (\<lambda>r. Some ''hook failed'')\<rparr>) []
             [sample_raising_work ''a''] of
        Inr summary \<Rightarrow> results summary | Inl _ \<Rightarrow> [])
   = [''a'', ''a'']"
  by code_simp

lemma runBatch_resumes_before_queued_item:
  "map res_agentId
     (case runBatch (sample_executor 1) [] [sample_raising_work ''a'', sample_raising_work ''b''] of
        Inr summary \<Rightarrow> results summary | Inl _ \<Rightarrow> [])
   = [''a'']"
  by code_simp

subsection \<open>Route decision: the repair loop\<close>

lemma route_first_valid:
  assumes "int attempt \<le> A"
      and "llm c calls msgs = Inr raw"
      and "parseRouteDecision parse raw = Inr d"
      and "call_attempt_hook (onRouteDecisionAttempt c) raw None attempt = None"
  shows "route_attempts parse c A attempt lastError calls msgs = (Inr d, calls + 1, msgs)"
  using assms by (subst route_attempts.simps) simp

lemma route_failed_attempt:
  assumes "int attempt \<le> A"
      and "llm c calls msgs = Inr raw"
      and "parseRouteDecision parse raw = Inl e"
      and "call_attempt_hook (onRouteDecisionAttempt c) raw (Some e) attempt = None"
  shows "route_attempts parse c A attempt lastError calls msgs
         = route_attempts parse c A (attempt + 1) (Some e) (calls + 1)
             (if int attempt < A
              then msgs @ [\<lparr>msg_role = assistant, content = raw\<rparr>,
                           \<lparr>msg_role = user, content = buildRepairInstruction e\<rparr>]
              else msgs)"
  using assms by (subst route_attempts.simps) simp

lemma route_exhausted:
  "\<not> int attempt \<le> A \<Longrightarrow>
     route_attempts parse c A attempt (Some e) calls msgs = (Inl (route_failure A (Some e)), calls, msgs)"
  by (subst route_attempts.simps) simp

lemma route_all_fail:
  assumes hook: "\<forall>raw err k. call_attempt_hook (onRouteDecisionAttempt c) raw err k = None"
      and fail: "\<forall>k ms. \<exists>raw e. llm c k ms = Inr raw \<and> parseRouteDecision parse raw = Inl e"
  shows "int attempt + int n = A \<Longrightarrow>
     \<exists>e_last final.
        route_attempts parse c A attempt lastError calls msgs
          = (Inl (route_failure A (Some e_last)), calls + Suc n, final)
        \<and> length final = length msgs + 2 * n
        \<and> take (length msgs) final = msgs
        \<and> (\<forall>k<n. \<exists>raw e. llm c (calls + k) (take (length msgs + 2 * k) final) = Inr raw
                    \<and> parseRouteDecision parse raw = Inl e
                    \<and> final ! (length msgs + 2 * k) = \<lparr>msg_role = assistant, content = raw\<rparr>
                    \<and> final ! (length msgs + 2 * k + 1)
                        = \<lparr>msg_role = user, content = buildRepairInstruction e\<rparr>)
        \<and> (\<exists>raw. llm c (calls + n) final = Inr raw \<and> parseRouteDecision parse raw = Inl e_last)"
proof (induction n arbitrary: attempt lastError calls msgs)
  case 0
  from fail obtain raw e where r: "llm c calls msgs = Inr raw" "parseRouteDecision parse raw = Inl e"
    by blast
  have le: "int attempt \<le> A" and nlt: "\<not> int attempt < A" and ex: "\<not> int (attempt + 1) \<le> A"
    using "0.prems" by simp_all
  have "route_attempts parse c A attempt lastError calls msgs
          = route_attempts parse c A (attempt + 1) (Some e) (calls + 1) msgs"
    using route_failed_attempt [OF le r] hook nlt by simp
  also have "\<dots> = (Inl (route_failure A (Some e)), calls + 1, msgs)"
    using ex by (rule route_exhausted)
  finally show ?case using r by simp
next
  case (Suc n)
  from fail obtain raw e where r: "llm c calls msgs = Inr raw" "parseRouteDecision parse raw = Inl e"
    by blast
  let ?a = "\<lparr>msg_role = assistant, content = raw\<rparr>"
  let ?b = "\<lparr>msg_role = user, content = buildRepairInstruction e\<rparr>"
  let ?msgs = "msgs @ [?a, ?b]"
  have le: "int attempt \<le> A" and lt: "int attempt < A" and nx: "int (attempt + 1) + int n = A"
    using Suc.prems by simp_all
  have step: "route_attempts parse c A attempt lastError calls msgs
          = route_attempts parse c A (attempt + 1) (Some e) (calls + 1) ?msgs"
    using route_failed_attempt [OF le r] hook lt by simp
  from Suc.IH [OF nx, of "Some e" "calls + 1" ?msgs]
  obtain e_last final where
    res: "route_attempts parse c A (attempt + 1) (Some e) (calls + 1) ?msgs
           = (Inl (route_failure A (Some e_last)), calls + 1 + Suc n, final)"
    and len: "length final = length ?msgs + 2 * n"
    and pre: "take (length ?msgs) final = ?msgs"
    and each: "\<forall>k<n. \<exists>raw e. llm c (calls + 1 + k) (take (length ?msgs + 2 * k) final) = Inr raw
                    \<and> parseRouteDecision parse raw = Inl e
                    \<and> final ! (length ?msgs + 2 * k) = \<lparr>msg_role = assistant, content = raw\<rparr>
                    \<and> final ! (length ?msgs + 2 * k + 1)
                        = \<lparr>msg_role = user, content = buildRepairInstruction e\<rparr>"
    and last: "\<exists>raw. llm c (calls + 1 + n) final = Inr raw \<and> parseRouteDecision parse raw = Inl e_last"
    by blast
  have fin: "final = ?msgs @ drop (length ?msgs) final"
    using pre by (metis append_take_drop_id)
  have pre0: "take (length msgs) final = msgs"
    by (subst fin) simp
  have n0: "final ! length msgs = ?a" and n1: "final ! (length msgs + 1) = ?b"
    by (subst fin, simp add: nth_append)+
  have first: "\<exists>raw e. llm c (calls + 0) (take (length msgs + 2 * 0) final) = Inr raw
                    \<and> parseRouteDecision parse raw = Inl e
                    \<and> final ! (length msgs + 2 * 0) = \<lparr>msg_role = assistant, content = raw\<rparr>
                    \<and> final ! (length msgs + 2 * 0 + 1)
                        = \<lparr>msg_role = user, content = buildRepairInstruction e\<rparr>"
    using r pre0 n0 n1 by auto
  have all: "\<forall>k<Suc n. \<exists>raw e. llm c (calls + k) (take (length msgs + 2 * k) final) = Inr raw
                    \<and> parseRouteDecision parse raw = Inl e
                    \<and> final ! (length msgs + 2 * k) = \<lparr>msg_role = assistant, content = raw\<rparr>
                    \<and> final ! (length msgs + 2 * k + 1)
                        = \<lparr>msg_role = user, content = buildRepairInstruction e\<rparr>"
  proof (intro allI impI)
    fix k assume k: "k < Suc n"
    show "\<exists>raw e. llm c (calls + k) (take (length msgs + 2 * k) final) = Inr raw
                    \<and> parseRouteDecision parse raw = Inl e
                    \<and> final ! (length msgs + 2 * k) = \<lparr>msg_role = assistant, content = raw\<rparr>
                    \<and> final ! (length msgs + 2 * k + 1)
                        = \<lparr>msg_role = user, content = buildRepairInstruction e\<rparr>"
    proof (cases k)
      case 0
      with first show ?thesis by simp
    next
      case (Suc j)
      with k have "j < n" by simp
      with each have "\<exists>raw e. llm c (calls + 1 + j) (take (length ?msgs + 2 * j) final) = Inr raw
                    \<and> parseRouteDecision parse raw = Inl e
                    \<and> final ! (length ?msgs + 2 * j) = \<lparr>msg_role = assistant, content = raw\<rparr>
                    \<and> final ! (length ?msgs + 2 * j + 1)
                        = \<lparr>msg_role = user, content = buildRepairInstruction e\<rparr>"
        by blast
      then show ?thesis by (simp add: Suc)
    qed
  qed
  show ?case
    using step res len pre0 all last by (auto simp: add.commute add.left_commute)
qed

text \<open>
  C6, as amended.  Let the attempt ceiling be \<open>A \<ge> 1\<close> and let the
  \<^verbatim>\<open>onRouteDecisionAttempt\<close> hook, if there is one, return normally.  If the client's
  first response parses as a valid route decision, \<open>acquireRouteDecision\<close> returns it after
  exactly one call of the client and leaves the message sequence as it was.  If every
  response fails parsing, it calls the client exactly \<open>A\<close> times; after each failed
  attempt but the last it appends the raw output and the repair instruction for that
  attempt's error; and it throws an error whose message ends with the last parse error.
\<close>

theorem C6_route_decision_attempts:
  "routeDecisionMaxAttempts (cfg orch) = Some A \<Longrightarrow> 1 \<le> A \<Longrightarrow>
   \<forall>raw err k. call_attempt_hook (onRouteDecisionAttempt (cfg orch)) raw err k = None \<Longrightarrow>
     (\<forall>raw d. llm (cfg orch) calls (route_messages orch options) = Inr raw
              \<and> parseRouteDecision (JSON_parse w) raw = Inr d
        \<longrightarrow> acquireRouteDecision w orch options calls
              = (Inr d, calls + 1, route_messages orch options))
     \<and> ((\<forall>k ms. \<exists>raw e. llm (cfg orch) k ms = Inr raw \<and> parseRouteDecision (JSON_parse w) raw = Inl e)
        \<longrightarrow> (\<exists>e_last final.
               acquireRouteDecision w orch options calls
                 = (Inl (route_failure A (Some e_last)), calls + nat A, final)
               \<and> suffix e_last (route_failure A (Some e_last))
               \<and> length final = length (route_messages orch options) + 2 * (nat A - 1)
               \<and> take (length (route_messages orch options)) final = route_messages orch options
               \<and> (\<forall>k<nat A - 1. \<exists>raw e.
                      llm (cfg orch) (calls + k)
                        (take (length (route_messages orch options) + 2 * k) final) = Inr raw
                      \<and> parseRouteDecision (JSON_parse w) raw = Inl e
                      \<and> final ! (length (route_messages orch options) + 2 * k)
                          = \<lparr>msg_role = assistant, content = raw\<rparr>
                      \<and> final ! (length (route_messages orch options) + 2 * k + 1)
                          = \<lparr>msg_role = user, content = buildRepairInstruction e\<rparr>)
               \<and> (\<exists>raw. llm (cfg orch) (calls + (nat A - 1)) final = Inr raw
                          \<and> parseRouteDecision (JSON_parse w) raw = Inl e_last)))"
proof (intro conjI allI impI)
  assume A: "routeDecisionMaxAttempts (cfg orch) = Some A" "1 \<le> A"
     and hook: "\<forall>raw err k. call_attempt_hook (onRouteDecisionAttempt (cfg orch)) raw err k = None"
  have mx: "route_maxAttempts (cfg orch) = A"
    using A by (simp add: route_maxAttempts_def)
  {
    fix raw d
    assume "llm (cfg orch) calls (route_messages orch options) = Inr raw
              \<and> parseRouteDecision (JSON_parse w) raw = Inr d"
    then show "acquireRouteDecision w orch options calls
              = (Inr d, calls + 1, route_messages orch options)"
      using A(2) hook by (simp add: acquireRouteDecision_def mx route_first_valid)
  }
  {
    assume fail: "\<forall>k ms. \<exists>raw e. llm (cfg orch) k ms = Inr raw
                    \<and> parseRouteDecision (JSON_parse w) raw = Inl e"
    have n: "int (1::nat) + int (nat A - 1) = A" "Suc (nat A - 1) = nat A"
      using A(2) by simp_all
    from route_all_fail [OF hook fail n(1), of None calls "route_messages orch options"]
    obtain e_last final where
      r: "route_attempts (JSON_parse w) (cfg orch) A 1 None calls (route_messages orch options)
            = (Inl (route_failure A (Some e_last)), calls + Suc (nat A - 1), final)"
         "length final = length (route_messages orch options) + 2 * (nat A - 1)"
         "take (length (route_messages orch options)) final = route_messages orch options"
         "\<forall>k<nat A - 1. \<exists>raw e.
                      llm (cfg orch) (calls + k)
                        (take (length (route_messages orch options) + 2 * k) final) = Inr raw
                      \<and> parseRouteDecision (JSON_parse w) raw = Inl e
                      \<and> final ! (length (route_messages orch options) + 2 * k)
                          = \<lparr>msg_role = assistant, content = raw\<rparr>
                      \<and> final ! (length (route_messages orch options) + 2 * k + 1)
                          = \<lparr>msg_role = user, content = buildRepairInstruction e\<rparr>"
         "\<exists>raw. llm (cfg orch) (calls + (nat A - 1)) final = Inr raw
                          \<and> parseRouteDecision (JSON_parse w) raw = Inl e_last"
      by blast
    have sfx: "suffix e_last (route_failure A (Some e_last))"
      by (simp add: route_failure_def suffix_def)
    have "acquireRouteDecision w orch options calls
            = (Inl (route_failure A (Some e_last)), calls + nat A, final)"
      using r(1) n(2) by (simp add: acquireRouteDecision_def mx)
    with sfx r(2-5)
    show "\<exists>e_last final.
               acquireRouteDecision w orch options calls
                 = (Inl (route_failure A (Some e_last)), calls + nat A, final)
               \<and> suffix e_last (route_failure A (Some e_last))
               \<and> length final = length (route_messages orch options) + 2 * (nat A - 1)
               \<and> take (length (route_messages orch options)) final = route_messages orch options
               \<and> (\<forall>k<nat A - 1. \<exists>raw e.
                      llm (cfg orch) (calls + k)
                        (take (length (route_messages orch options) + 2 * k) final) = Inr raw
                      \<and> parseRouteDecision (JSON_parse w) raw = Inl e
                      \<and> final ! (length (route_messages orch options) + 2 * k)
                          = \<lparr>msg_role = assistant, content = raw\<rparr>
                      \<and> final ! (length (route_messages orch options) + 2 * k + 1)
                          = \<lparr>msg_role = user, content = buildRepairInstruction e\<rparr>)
               \<and> (\<exists>raw. llm (cfg orch) (calls + (nat A - 1)) final = Inr raw
                          \<and> parseRouteDecision (JSON_parse w) raw = Inl e_last)"
      by blast
  }
qed

lemma cfg_createCrewOrchestrator [simp]: "cfg (createCrewOrchestrator c) = c"
  by (simp add: createCrewOrchestrator_def Let_def split: option.splits)

lemma sample_route_text_parses:
  "parseRouteDecision sample_JSON_parse sample_route_text
     = Inr \<lparr>strategy = plan_then_parallel, rationale = ''Need planning''\<rparr>"
  by code_simp

lemma sample_garbled_text_fails:
  "parseRouteDecision sample_JSON_parse ''garbled planner output''
     = Inl ''RouteDecision parse error: no JSON object found.''"
  by code_simp

theorem C6_route_decision_attempts_witness:
  "acquireRouteDecision sample_world (createCrewOrchestrator sample_cfg) sample_options 0
     = (Inr \<lparr>strategy = plan_then_parallel, rationale = ''Need planning''\<rparr>, 1,
        route_messages (createCrewOrchestrator sample_cfg) sample_options)
   \<and> (\<exists>e_last final.
         acquireRouteDecision sample_world (createCrewOrchestrator sample_garbled_cfg) sample_options 0
           = (Inl (route_failure 2 (Some e_last)), 2, final)
         \<and> length final = 4)"
proof
  have "llm sample_cfg 0 (route_messages (createCrewOrchestrator sample_cfg) sample_options)
          = Inr sample_route_text
        \<and> parseRouteDecision (JSON_parse sample_world) sample_route_text
          = Inr \<lparr>strategy = plan_then_parallel, rationale = ''Need planning''\<rparr>"
    using sample_route_text_parses by (simp add: sample_cfg_def sample_llm_def sample_world_def)
  with C6_route_decision_attempts
         [of "createCrewOrchestrator sample_cfg" 1 0 sample_options sample_world]
  show "acquireRouteDecision sample_world (createCrewOrchestrator sample_cfg) sample_options 0
     = (Inr \<lparr>strategy = plan_then_parallel, rationale = ''Need planning''\<rparr>, 1,
        route_messages (createCrewOrchestrator sample_cfg) sample_options)"
    by (simp add: sample_cfg_def call_attempt_hook_def)
next
  have fail: "\<forall>k ms. \<exists>raw e. llm sample_garbled_cfg k ms = Inr raw
                \<and> parseRouteDecision (JSON_parse sample_world) raw = Inl e"
    using sample_garbled_text_fails by (simp add: sample_garbled_cfg_def sample_world_def)
  have len: "length (route_messages (createCrewOrchestrator sample_garbled_cfg) sample_options) = 2"
    by (simp add: route_messages_def)
  from C6_route_decision_attempts
         [of "createCrewOrchestrator sample_garbled_cfg" 2 0 sample_options sample_world] fail
  obtain e_last final where
    "acquireRouteDecision sample_world (createCrewOrchestrator sample_garbled_cfg) sample_options 0
       = (Inl (route_failure 2 (Some e_last)), 0 + nat 2, final)"
    "length final
       = length (route_messages (createCrewOrchestrator sample_garbled_cfg) sample_options)
         + 2 * (nat 2 - 1)"
    by (auto simp: sample_garbled_cfg_def sample_cfg_def call_attempt_hook_def)
  then show "\<exists>e_last final.
         acquireRouteDecision sample_world (createCrewOrchestrator sample_garbled_cfg) sample_options 0
           = (Inl (route_failure 2 (Some e_last)), 2, final)
         \<and> length final = 4"
    using len by auto
qed

text \<open>
  The claim as stated fails when the hook throws: the first response parses as a valid
  route decision, the hook's exception inside the \<^verbatim>\<open>try\<close> block is taken for a
  failed attempt, and the client is called a second time with a repair instruction.
\<close>

theorem C6_throwing_hook_forces_second_call:
  "llm sample_hook_cfg 0 (route_messages (createCrewOrchestrator sample_hook_cfg) sample_options)
     = Inr sample_route_text
   \<and> parseRouteDecision (JSON_parse sample_world) sample_route_text
     = Inr \<lparr>strategy = plan_then_parallel, rationale = ''Need planning''\<rparr>
   \<and> fst (snd (acquireRouteDecision sample_world (createCrewOrchestrator sample_hook_cfg)
                 sample_options 0)) = 2
   \<and> length (snd (snd (acquireRouteDecision sample_world (createCrewOrchestrator sample_hook_cfg)
                         sample_options 0))) = 4"
proof (intro conjI)
  show "llm sample_hook_cfg 0 (route_messages (createCrewOrchestrator sample_hook_cfg) sample_options)
     = Inr sample_route_text"
    by (simp add: sample_hook_cfg_def sample_cfg_def sample_llm_def)
  show "parseRouteDecision (JSON_parse sample_world) sample_route_text
     = Inr \<lparr>strategy = plan_then_parallel, rationale = ''Need planning''\<rparr>"
    using sample_route_text_parses by (simp add: sample_world_def)
  show "fst (snd (acquireRouteDecision sample_world (createCrewOrchestrator sample_hook_cfg)
                 sample_options 0)) = 2"
    by code_simp
  show "length (snd (snd (acquireRouteDecision sample_world (createCrewOrchestrator sample_hook_cfg)
                         sample_options 0))) = 4"
    by code_simp
qed

subsection \<open>Orchestrator: what a run throws\<close>










lemma built_createCrewOrchestrator:
  "built_orchestrator ((createCrewOrchestrator c)\<lparr>termination_state := t, memory := m\<rparr>)"
  by (simp add: built_orchestrator_def createCrewOrchestrator_def built_executor_def Let_def
           split: option.splits)










subsection \<open>Orchestrator: the skeleton plan fallback\<close>







lemma maxEntries_pushEntry [simp]: "maxEntries (pushEntry x m) = maxEntries m"
  by (simp add: pushEntry_def Let_def)

















lemma add_to_group_keys:
  "map fst (add_to_group key i groups)
     = (if key \<in> set (map fst groups) then map fst groups else map fst groups @ [key])"
  by (simp add: add_to_group_def comp_def)

lemma extend_group_size:
  "distinct (map fst groups) \<Longrightarrow>
     length (concat (map snd (map (\<lambda>g. if fst g = key then (fst g, snd g @ [i]) else g) groups)))
       = (if key \<in> set (map fst groups) then Suc (length (concat (map snd groups)))
          else length (concat (map snd groups)))"
  by (induction groups) (auto simp: image_iff)

lemma add_to_group_size:
  "distinct (map fst groups) \<Longrightarrow>
     length (concat (map snd (add_to_group key i groups))) = Suc (length (concat (map snd groups)))"
  using extend_group_size [of groups key i] by (simp add: add_to_group_def)

lemma foldl_groups_size:
  "distinct (map fst acc) \<Longrightarrow>
     distinct (map fst (foldl (\<lambda>groups i. add_to_group (k i) i groups) acc ready))
     \<and> length (concat (map snd (foldl (\<lambda>groups i. add_to_group (k i) i groups) acc ready)))
         = length ready + length (concat (map snd acc))"
proof (induction ready arbitrary: acc)
  case Nil
  then show ?case by simp
next
  case (Cons i ready)
  have d: "distinct (map fst (add_to_group (k i) i acc))"
    using Cons.prems by (simp add: add_to_group_keys)
  from Cons.IH [OF d] add_to_group_size [OF Cons.prems, of "k i" i] show ?case
    by simp
qed

lemma group_ready_size:
  "length (concat (map snd (group_ready ss ready))) = length ready"
  unfolding group_ready_def
  using foldl_groups_size [of "[]" "\<lambda>i. group_key (ss ! i)" ready] by simp


lemma ready_steps_distinct: "distinct (ready_steps idx ss)"
  by (simp add: ready_steps_def)




























subsection \<open>Plan DAG executor: unresolved dependencies\<close>
















lemma group_ready_distinct:
  assumes "distinct ready"
  shows "distinct (concat (map snd (group_ready ss ready)))"
    and "set (concat (map snd (group_ready ss ready))) = set ready"
proof -
  show s: "set (concat (map snd (group_ready ss ready))) = set ready"
    using group_ready_members [of ss ready] by auto
  have "card (set (concat (map snd (group_ready ss ready)))) = length (concat (map snd (group_ready ss ready)))"
    using s assms by (simp add: group_ready_size distinct_card)
  then show "distinct (concat (map snd (group_ready ss ready)))"
    by (rule card_distinct)
qed




lemma ready_steps_member:
  "i \<in> set (ready_steps idx ss) \<longleftrightarrow> i < length ss \<and> isReady idx ss (ss ! i)"
  by (auto simp: ready_steps_def)







text \<open>
  The plan and the factory of the executor test \<^verbatim>\<open>marks deadlocked steps as error\<close>:
  the steps have no \<^verbatim>\<open>agentId\<close>, the results carry the step's id, so no result finds
  its step; the first step stays \<^verbatim>\<open>running\<close> and ends in the deadlock error.
\<close>

lemma unmatched_step_ends_in_error:
  "(case PlanDAGExecutor_run sample_dag (\<lambda>_. []) sample_dangling_plan sample_factory () 0 of
      Inl e \<Rightarrow> None
    | Inr (res, p', h', b') \<Rightarrow> Some (stepsExecuted res, map (\<lambda>s. (status s, errorMessage s)) (steps p')))
    = Some (0, [(Some Error, Some ''Deadlock: dependencies unresolved''),
                (Some Error, Some ''Deadlock: dependencies unresolved'')])"
  by code_simp

subsection \<open>Plan DAG executor: termination\<close>

text \<open>
  The executor with a factory that writes \<^verbatim>\<open>agentId\<close> only is the executor with that
  factory taken as a factory in general, and its run always returns.
\<close>

lemma build_items_live_agentId_only:
  "build_items_live (agentId_only bw) grp ss = build_items bw grp ss"
  by (induction grp arbitrary: ss) (simp_all add: agentId_only_def case_prod_beta)

lemma run_group_live_agentId_only:
  "run_group_live dag (agentId_only bw) sched grp st = run_group dag bw sched grp st"
  by (simp add: run_group_live_def run_group_def build_items_live_agentId_only split: sum.splits)

lemma run_groups_live_agentId_only:
  "run_groups_live dag (agentId_only bw) sched grps st = run_groups dag bw sched grps st"
  by (induction grps arbitrary: st) (simp_all add: run_group_live_agentId_only split: sum.splits)

lemma run_wave_live_agentId_only:
  "run_wave_live dag (agentId_only bw) sched ready st = run_wave dag bw sched ready st"
  by (simp add: run_wave_live_def run_wave_def run_groups_live_agentId_only split: sum.splits)

lemma wave_loop_live_agentId_only:
  "wave_loop_live dag (agentId_only bw) sched idx st = Some (wave_loop dag bw sched idx st)"
proof (induction dag bw sched idx st rule: wave_loop.induct)
  case (1 dag bw sched idx st)
  show ?case
  proof (cases "ready_steps idx (dag_steps st) = []")
    case True
    then show ?thesis
      by (subst wave_loop_live.simps, subst wave_loop.simps) simp
  next
    case False
    show ?thesis
    proof (cases "run_wave dag bw sched (ready_steps idx (dag_steps st)) st")
      case (Inl e)
      with False show ?thesis
        by (subst wave_loop_live.simps, subst wave_loop.simps) (simp add: run_wave_live_agentId_only)
    next
      case (Inr st1)
      with False "1.IH" [OF False Inr] show ?thesis
        by (subst wave_loop_live.simps, subst wave_loop.simps) (simp add: run_wave_live_agentId_only)
    qed
  qed
qed

lemma PlanDAGExecutor_run_live_agentId_only:
  "PlanDAGExecutor_run_live dag sched pl (agentId_only bw) h b
     = Some (PlanDAGExecutor_run dag sched pl bw h b)"
  by (simp add: PlanDAGExecutor_run_live_def PlanDAGExecutor_run_def wave_loop_live_agentId_only
           split: sum.splits)

lemma keeps_started_agentId_only: "keeps_started (agentId_only bw)"
  by (simp add: keeps_started_def agentId_only_def is_pending_def)

text \<open>
  A wave with a factory that does not hand a running step back as pending leaves fewer
  pending steps than it found: every ready step is set to running, the factory leaves it
  other than pending, and the results set steps to done or error only.
\<close>

lemma mark_running_waves: "mark_running dag grp st = Inr st' \<Longrightarrow> waves st' = waves st"
  by (induction grp arbitrary: st) (auto simp: Let_def split: sum.splits)

lemma apply_results_waves: "apply_results dag grp rs st = Inr st' \<Longrightarrow> waves st' = waves st"
  by (induction rs arbitrary: st) (auto simp: Let_def split: sum.splits option.splits)

lemma mark_deadlock_terminal:
  "s \<in> set (mark_deadlock ss) \<Longrightarrow> status s = Some Done \<or> status s = Some Error"
  by (auto simp: mark_deadlock_def)

lemma mark_running_statuses:
  "mark_running dag grp st = Inr st' \<Longrightarrow>
     length (dag_steps st') = length (dag_steps st)
     \<and> (\<forall>i<length (dag_steps st).
           status (dag_steps st' ! i) = (if i \<in> set grp then Some Running else status (dag_steps st ! i)))"
proof (induction grp arbitrary: st)
  case Nil
  then show ?case by simp
next
  case (Cons i rest)
  let ?ss = "(dag_steps st)[i := (dag_steps st ! i)\<lparr>status := Some Running\<rparr>]"
  from Cons.prems obtain h where
    rec: "mark_running dag rest (st\<lparr>dag_steps := ?ss, hook_state := h\<rparr>) = Inr st'"
    by (auto simp: Let_def split: sum.splits)
  from Cons.IH [OF rec] have l: "length (dag_steps st') = length (dag_steps st)"
    and s: "\<forall>k<length (dag_steps st).
              status (dag_steps st' ! k) = (if k \<in> set rest then Some Running else status (?ss ! k))"
    by simp_all
  have "status (dag_steps st' ! k) = (if k \<in> set (i # rest) then Some Running else status (dag_steps st ! k))"
    if "k < length (dag_steps st)" for k
    using s that by (cases "k = i") simp_all
  with l show ?case by simp
qed

lemma build_items_live_progress:
  "build_items_live bw grp ss = (ws, ss') \<Longrightarrow> keeps_started bw \<Longrightarrow> distinct grp \<Longrightarrow>
   \<forall>i\<in>set grp. i < length ss \<and> status (ss ! i) = Some Running \<Longrightarrow>
     no_new_pending ss ss' \<and> (\<forall>i\<in>set grp. \<not> is_pending (ss' ! i))"
proof (induction grp arbitrary: ss ws ss')
  case Nil
  then show ?case by (simp add: no_new_pending_refl)
next
  case (Cons i rest)
  obtain w s' where b: "bw (ss ! i) = (w, s')" by (cases "bw (ss ! i)")
  let ?ss1 = "ss[i := s']"
  obtain ws1 ss1 where r: "build_items_live bw rest ?ss1 = (ws1, ss1)"
    by (cases "build_items_live bw rest ?ss1")
  from Cons.prems(1) b r have eq: "ss' = ss1" by simp
  from Cons.prems(3,4) have d: "distinct rest" "i \<notin> set rest" "i < length ss" "status (ss ! i) = Some Running"
    by simp_all
  from Cons.prems(2) d(4) b have np: "\<not> is_pending s'"
    unfolding keeps_started_def by (metis snd_conv)
  have pre: "\<forall>j\<in>set rest. j < length ?ss1 \<and> status (?ss1 ! j) = Some Running"
  proof
    fix j assume j: "j \<in> set rest"
    with d(2) have "j \<noteq> i" by auto
    with j Cons.prems(4) show "j < length ?ss1 \<and> status (?ss1 ! j) = Some Running" by simp
  qed
  from Cons.IH [OF r Cons.prems(2) d(1) pre] have ih:
    "no_new_pending ?ss1 ss1" "\<forall>j\<in>set rest. \<not> is_pending (ss1 ! j)"
    by simp_all
  have up: "no_new_pending ss ?ss1"
    by (rule no_new_pending_update) (simp add: np)
  have "\<not> is_pending (?ss1 ! i)" using d(3) np by simp
  with ih(1) d(3) have "\<not> is_pending (ss1 ! i)"
    by (auto dest: no_new_pending_nth)
  with ih up eq show ?case
    by (auto intro: no_new_pending_trans)
qed

lemma run_group_live_progress:
  assumes g: "run_group_live dag bw sched grp st = Inr st'"
      and k: "keeps_started bw" and d: "distinct grp"
      and r: "\<forall>i\<in>set grp. i < length (dag_steps st)"
  shows "no_new_pending (dag_steps st) (dag_steps st')"
    and "\<forall>i\<in>set grp. \<not> is_pending (dag_steps st' ! i)"
proof -
  from g obtain st1 where m: "mark_running dag grp st = Inr st1"
    by (auto simp: run_group_live_def split: sum.splits)
  obtain ws ss where b: "build_items_live bw grp (dag_steps st1) = (ws, ss)"
    by (cases "build_items_live bw grp (dag_steps st1)")
  from g m b obtain summary :: ParallelBatchSummary where
    a: "apply_results dag grp (results summary) (st1\<lparr>dag_steps := ss, batches := batches st1 + 1\<rparr>) = Inr st'"
    by (auto simp: run_group_live_def split: sum.splits)
  from mark_running_progress [OF m] have mr: "no_new_pending (dag_steps st) (dag_steps st1)"
    by simp
  from mark_running_statuses [OF m] r have
    pre: "\<forall>i\<in>set grp. i < length (dag_steps st1) \<and> status (dag_steps st1 ! i) = Some Running"
    by simp
  from build_items_live_progress [OF b k d pre] have
    bs: "no_new_pending (dag_steps st1) ss" and bn: "\<forall>i\<in>set grp. \<not> is_pending (ss ! i)"
    by simp_all
  have ar: "no_new_pending ss (dag_steps st')"
    using apply_results_progress [OF a] by simp
  show "no_new_pending (dag_steps st) (dag_steps st')"
    using mr bs ar by (blast intro: no_new_pending_trans)
  have len: "length ss = length (dag_steps st)"
    using mr bs by (simp add: no_new_pending_length)
  show "\<forall>i\<in>set grp. \<not> is_pending (dag_steps st' ! i)"
  proof
    fix i assume i: "i \<in> set grp"
    with r len have "i < length ss" by simp
    moreover from bn i have "\<not> is_pending (ss ! i)" by simp
    ultimately show "\<not> is_pending (dag_steps st' ! i)"
      using no_new_pending_nth [OF ar] by blast
  qed
qed

lemma run_groups_live_progress:
  "run_groups_live dag bw sched grps st = Inr st' \<Longrightarrow> keeps_started bw \<Longrightarrow>
   distinct (concat grps) \<Longrightarrow> \<forall>i\<in>set (concat grps). i < length (dag_steps st) \<Longrightarrow>
     no_new_pending (dag_steps st) (dag_steps st')
     \<and> (\<forall>i\<in>set (concat grps). \<not> is_pending (dag_steps st' ! i))"
proof (induction grps arbitrary: st)
  case Nil
  then show ?case by (simp add: no_new_pending_refl)
next
  case (Cons grp rest)
  from Cons.prems(1) obtain st1 where
    g: "run_group_live dag bw sched grp st = Inr st1"
    and r: "run_groups_live dag bw sched rest st1 = Inr st'"
    by (auto split: sum.splits)
  from Cons.prems(3,4) have dg: "distinct grp" and dr: "distinct (concat rest)"
    and rg: "\<forall>i\<in>set grp. i < length (dag_steps st)"
    by auto
  note gp = run_group_live_progress [OF g Cons.prems(2) dg rg]
  have len: "length (dag_steps st1) = length (dag_steps st)"
    using gp(1) by (rule no_new_pending_length)
  have rr: "\<forall>i\<in>set (concat rest). i < length (dag_steps st1)"
    using Cons.prems(4) len by simp
  from Cons.IH [OF r Cons.prems(2) dr rr] have ih:
    "no_new_pending (dag_steps st1) (dag_steps st')"
    "\<forall>i\<in>set (concat rest). \<not> is_pending (dag_steps st' ! i)"
    by simp_all
  have "\<forall>i\<in>set grp. \<not> is_pending (dag_steps st' ! i)"
  proof
    fix i assume i: "i \<in> set grp"
    with rg len have "i < length (dag_steps st1)" by simp
    moreover from gp(2) i have "\<not> is_pending (dag_steps st1 ! i)" by simp
    ultimately show "\<not> is_pending (dag_steps st' ! i)"
      using no_new_pending_nth [OF ih(1)] by blast
  qed
  with gp(1) ih show ?case
    by (auto intro: no_new_pending_trans)
qed

lemma run_wave_live_progress:
  assumes w: "run_wave_live dag bw sched (ready_steps idx (dag_steps st)) st = Inr st'"
      and ne: "ready_steps idx (dag_steps st) \<noteq> []"
      and k: "keeps_started bw"
  shows "pending_count (dag_steps st') < pending_count (dag_steps st)"
proof -
  let ?ready = "ready_steps idx (dag_steps st)"
  let ?grps = "map snd (group_ready (dag_steps st) ?ready)"
  from w obtain h0 st1 h1 where
    g: "run_groups_live dag bw sched ?grps (st\<lparr>hook_state := h0\<rparr>) = Inr st1"
    and e: "st' = st1\<lparr>hook_state := h1, waves := waves st1 + 1\<rparr>"
    by (auto simp: run_wave_live_def split: sum.splits)
  note gd = group_ready_distinct [OF ready_steps_distinct [of idx "dag_steps st"], of "dag_steps st"]
  have rng: "\<forall>i\<in>set (concat ?grps). i < length (dag_steps (st\<lparr>hook_state := h0\<rparr>))"
    using gd(2) by (simp add: ready_steps_member)
  from run_groups_live_progress [OF g k gd(1) rng] have
    nn0: "no_new_pending (dag_steps (st\<lparr>hook_state := h0\<rparr>)) (dag_steps st1)"
    and np0: "\<forall>i\<in>set (concat ?grps). \<not> is_pending (dag_steps st1 ! i)"
    by blast+
  from nn0 have nn: "no_new_pending (dag_steps st) (dag_steps st1)" by simp
  from np0 have np: "\<forall>i\<in>set ?ready. \<not> is_pending (dag_steps st1 ! i)"
    by (simp only: gd(2))
  from ne obtain j where j: "j \<in> set ?ready" by (cases ?ready) auto
  then have jl: "j < length (dag_steps st)" and jp: "is_pending (dag_steps st ! j)"
    by (auto simp: ready_steps_def isReady_def)
  from np j have "\<not> is_pending (dag_steps st1 ! j)" by simp
  with nn jl jp have "pending_count (dag_steps st1) < pending_count (dag_steps st)"
    by (rule fewer_pending)
  then show ?thesis using e by simp
qed

lemma run_group_live_waves: "run_group_live dag bw sched grp st = Inr st' \<Longrightarrow> waves st' = waves st"
  by (auto simp: run_group_live_def split: sum.splits prod.splits
           dest!: mark_running_waves apply_results_waves)

lemma run_groups_live_waves: "run_groups_live dag bw sched grps st = Inr st' \<Longrightarrow> waves st' = waves st"
  by (induction grps arbitrary: st) (auto split: sum.splits dest!: run_group_live_waves)

lemma run_wave_live_waves: "run_wave_live dag bw sched ready st = Inr st' \<Longrightarrow> waves st' = waves st + 1"
  by (auto simp: run_wave_live_def split: sum.splits dest!: run_groups_live_waves)

lemma wave_loop_live_returns:
  "keeps_started bw \<Longrightarrow>
     \<exists>r. wave_loop_live dag bw sched idx st = Some r
       \<and> (\<forall>st'. r = Inr st' \<longrightarrow>
             waves st' \<le> waves st + pending_count (dag_steps st)
             \<and> (\<forall>s\<in>set (dag_steps st'). status s = Some Done \<or> status s = Some Error))"
proof (induction "pending_count (dag_steps st)" arbitrary: st rule: less_induct)
  case less
  let ?ready = "ready_steps idx (dag_steps st)"
  show ?case
  proof (cases "?ready = []")
    case True
    then have "wave_loop_live dag bw sched idx st = Some (Inr (st\<lparr>dag_steps := mark_deadlock (dag_steps st)\<rparr>))"
      by (subst wave_loop_live.simps) simp
    then show ?thesis by (auto dest: mark_deadlock_terminal)
  next
    case False
    show ?thesis
    proof (cases "run_wave_live dag bw sched ?ready st")
      case (Inl e)
      with False have "wave_loop_live dag bw sched idx st = Some (Inl e)"
        by (subst wave_loop_live.simps) simp
      then show ?thesis by simp
    next
      case (Inr st1)
      note pr = run_wave_live_progress [OF Inr False less.prems]
      from less.hyps [OF pr less.prems] obtain r where
        r: "wave_loop_live dag bw sched idx st1 = Some r"
        and b: "\<forall>st'. r = Inr st' \<longrightarrow>
             waves st' \<le> waves st1 + pending_count (dag_steps st1)
             \<and> (\<forall>s\<in>set (dag_steps st'). status s = Some Done \<or> status s = Some Error)"
        by blast
      from False Inr have "wave_loop_live dag bw sched idx st = wave_loop_live dag bw sched idx st1"
        by (subst wave_loop_live.simps) simp
      with r b pr run_wave_live_waves [OF Inr] show ?thesis by auto
    qed
  qed
qed

text \<open>
  C4, as amended.  Let the work factory not hand a running step back as pending (or
  without status); the actions are taken to terminate, and only the executor and the
  factory, on the step it is handed, write to the steps.  Then, for every plan (cyclic or
  dangling dependencies included), every hook and every order in which the actions finish,
  \<open>run\<close> terminates: the wave loop returns, with a result or with what a hook or a batch
  threw.  Without a ready step the loop marks the remaining steps and stops; a wave that
  completes leaves strictly fewer pending steps; so a loop that returns a result has made
  at most as many waves as there were pending steps, and leaves every step done or error.
\<close>

theorem C4_wave_loop_terminates:
  assumes "keeps_started bw"
  shows "(\<exists>r. PlanDAGExecutor_run_live dag sched pl bw h b = Some r)
   \<and> (\<exists>r. wave_loop_live dag bw sched idx st = Some r
         \<and> (\<forall>st'. r = Inr st' \<longrightarrow>
               waves st' \<le> waves st + pending_count (dag_steps st)
               \<and> (\<forall>s\<in>set (dag_steps st'). status s = Some Done \<or> status s = Some Error)))
   \<and> (ready_steps idx (dag_steps st) = []
        \<longrightarrow> wave_loop_live dag bw sched idx st
              = Some (Inr (st\<lparr>dag_steps := mark_deadlock (dag_steps st)\<rparr>)))
   \<and> (\<forall>st1. ready_steps idx (dag_steps st) \<noteq> []
             \<and> run_wave_live dag bw sched (ready_steps idx (dag_steps st)) st = Inr st1
        \<longrightarrow> pending_count (dag_steps st1) < pending_count (dag_steps st)
            \<and> wave_loop_live dag bw sched idx st = wave_loop_live dag bw sched idx st1)"
proof (intro conjI allI impI)
  let ?st0 = "\<lparr>dag_steps = steps pl, waves = 0, executed = 0, hook_state = h, batches = b\<rparr>"
  from wave_loop_live_returns [OF assms, of dag sched "stepIndex (steps pl)" ?st0] obtain r where
    "wave_loop_live dag bw sched (stepIndex (steps pl)) ?st0 = Some r"
    by blast
  then show "\<exists>r. PlanDAGExecutor_run_live dag sched pl bw h b = Some r"
    by (cases r) (simp_all add: PlanDAGExecutor_run_live_def)
next
  show "\<exists>r. wave_loop_live dag bw sched idx st = Some r
         \<and> (\<forall>st'. r = Inr st' \<longrightarrow>
               waves st' \<le> waves st + pending_count (dag_steps st)
               \<and> (\<forall>s\<in>set (dag_steps st'). status s = Some Done \<or> status s = Some Error))"
    using assms by (rule wave_loop_live_returns)
next
  assume "ready_steps idx (dag_steps st) = []"
  then show "wave_loop_live dag bw sched idx st
              = Some (Inr (st\<lparr>dag_steps := mark_deadlock (dag_steps st)\<rparr>))"
    by (subst wave_loop_live.simps) simp
next
  fix st1
  assume a: "ready_steps idx (dag_steps st) \<noteq> []
             \<and> run_wave_live dag bw sched (ready_steps idx (dag_steps st)) st = Inr st1"
  then show "pending_count (dag_steps st1) < pending_count (dag_steps st)"
    using run_wave_live_progress [of dag bw sched idx st st1] assms by simp
  from a show "wave_loop_live dag bw sched idx st = wave_loop_live dag bw sched idx st1"
    by (subst wave_loop_live.simps) simp
qed

theorem C4_wave_loop_terminates_witness:
  "(\<exists>r. PlanDAGExecutor_run_live sample_dag (\<lambda>_. []) sample_cyclic_plan (agentId_only sample_factory) () 0
             = Some r)
   \<and> (case PlanDAGExecutor_run_live sample_dag (\<lambda>_. []) sample_cyclic_plan (agentId_only sample_factory) () 0 of
         Some (Inr (res, p', h', b')) \<Rightarrow> Some (result_waves res, map status (steps p'))
       | _ \<Rightarrow> None)
       = Some (2, [Some Done, Some Error, Some Error, Some Done])"
proof (intro conjI)
  have k: "keeps_started (agentId_only sample_factory)"
    by (rule keeps_started_agentId_only)
  from C4_wave_loop_terminates [OF k, of sample_dag "\<lambda>_. []" sample_cyclic_plan "()" 0]
  show "\<exists>r. PlanDAGExecutor_run_live sample_dag (\<lambda>_. []) sample_cyclic_plan (agentId_only sample_factory) () 0
             = Some r"
    by blast
  show "(case PlanDAGExecutor_run_live sample_dag (\<lambda>_. []) sample_cyclic_plan (agentId_only sample_factory) () 0 of
         Some (Inr (res, p', h', b')) \<Rightarrow> Some (result_waves res, map status (steps p'))
       | _ \<Rightarrow> None)
       = Some (2, [Some Done, Some Error, Some Error, Some Done])"
    by (simp only: PlanDAGExecutor_run_live_agentId_only) code_simp
qed

text \<open>
  The factory that sets its step back to \<^verbatim>\<open>pending\<close>: a wave on the plan of one step
  returns with the plan as it was, so no run of the loop from this plan returns.
\<close>

lemma resetting_batch:
  "runBatch (sample_executor 2) []
     [\<lparr>work_agentId = ''x'', work_phase = execution, label = None,
       run = Inr \<lparr>res_agentId = ''x'', res_phase = execution, success = True, res_output = None,
                  res_errorMessage = None\<rparr>\<rparr>]
   = Inr \<lparr>results = [\<lparr>res_agentId = ''x'', res_phase = execution, success = True, res_output = None,
                      res_errorMessage = None\<rparr>],
          succeeded = [\<lparr>res_agentId = ''x'', res_phase = execution, success = True, res_output = None,
                      res_errorMessage = None\<rparr>],
          failed = []\<rparr>"
  by code_simp

lemma resetting_wave:
  assumes "dag_steps st = steps sample_single_plan"
  shows "ready_steps (stepIndex (steps sample_single_plan)) (dag_steps st) = [0]"
    and "\<exists>st1. run_wave_live sample_dag sample_resetting_factory (\<lambda>_. []) [0] st = Inr st1
            \<and> dag_steps st1 = steps sample_single_plan"
proof -
  have ss: "dag_steps st = [sample_test_step ''s1'' []]"
    using assms by (simp add: sample_single_plan_def)
  show "ready_steps (stepIndex (steps sample_single_plan)) (dag_steps st) = [0]"
    by (simp add: ss sample_single_plan_def ready_steps_def isReady_def is_pending_def
          sample_test_step_def)
  have "run_wave_live sample_dag sample_resetting_factory (\<lambda>_. []) [0] st
          = Inr (st\<lparr>batches := batches st + 1, waves := waves st + 1\<rparr>)"
    by (simp add: run_wave_live_def call_wave_start_def call_wave_complete_def run_group_live_def
          group_ready_def add_to_group_def group_key_def or_else_def
          call_step_hook_def sample_dag_def ss sample_resetting_factory_def resetting_batch
          find_step_def sample_test_step_def Let_def)
  then show "\<exists>st1. run_wave_live sample_dag sample_resetting_factory (\<lambda>_. []) [0] st = Inr st1
            \<and> dag_steps st1 = steps sample_single_plan"
    using assms by simp
qed

lemma resetting_loop:
  assumes "wave_loop_live dag bw sched idx st = Some r"
  shows "\<not> (dag = sample_dag \<and> bw = sample_resetting_factory \<and> sched = (\<lambda>_. [])
            \<and> idx = stepIndex (steps sample_single_plan) \<and> dag_steps st = steps sample_single_plan)"
  using assms
proof (rule wave_loop_live.raw_induct
         [rotated 1,
          where P = "\<lambda>dag bw sched idx st r.
                       \<not> (dag = sample_dag \<and> bw = sample_resetting_factory \<and> sched = (\<lambda>_. [])
                          \<and> idx = stepIndex (steps sample_single_plan)
                          \<and> dag_steps st = steps sample_single_plan)"])
  fix loop :: "unit PlanDAGExecutor \<Rightarrow> LiveRunFactory \<Rightarrow> (nat \<Rightarrow> nat list) \<Rightarrow> (string \<rightharpoonup> nat)
                 \<Rightarrow> unit dag_state \<Rightarrow> unit dag_state throws option"
  fix dag bw sched idx st r
  assume ih: "\<And>dag bw sched idx st r. loop dag bw sched idx st = Some r \<Longrightarrow>
                \<not> (dag = sample_dag \<and> bw = sample_resetting_factory \<and> sched = (\<lambda>_. [])
                   \<and> idx = stepIndex (steps sample_single_plan)
                   \<and> dag_steps st = steps sample_single_plan)"
    and eq: "(if ready_steps idx (dag_steps st) = []
              then Some (Inr (st\<lparr>dag_steps := mark_deadlock (dag_steps st)\<rparr>))
              else case run_wave_live dag bw sched (ready_steps idx (dag_steps st)) st of
                     Inl e \<Rightarrow> Some (Inl e)
                   | Inr st' \<Rightarrow> loop dag bw sched idx st') = Some r"
  show "\<not> (dag = sample_dag \<and> bw = sample_resetting_factory \<and> sched = (\<lambda>_. [])
            \<and> idx = stepIndex (steps sample_single_plan) \<and> dag_steps st = steps sample_single_plan)"
  proof
    assume a: "dag = sample_dag \<and> bw = sample_resetting_factory \<and> sched = (\<lambda>_. [])
         \<and> idx = stepIndex (steps sample_single_plan) \<and> dag_steps st = steps sample_single_plan"
    then have ss: "dag_steps st = steps sample_single_plan" by simp
    from resetting_wave [OF ss] obtain st1 where
      rd: "ready_steps (stepIndex (steps sample_single_plan)) (dag_steps st) = [0]"
      and w: "run_wave_live sample_dag sample_resetting_factory (\<lambda>_. []) [0] st = Inr st1"
      and s1: "dag_steps st1 = steps sample_single_plan"
      by blast
    from eq a rd w have "loop sample_dag sample_resetting_factory (\<lambda>_. [])
             (stepIndex (steps sample_single_plan)) st1 = Some r"
      by simp
    from ih [OF this] s1 show False by simp
  qed
qed

text \<open>
  The claim as stated fails: a factory may write to the step it is handed.  With the plan
  of one step and the factory that sets the step back to \<^verbatim>\<open>pending\<close>, whose action
  succeeds at once under an agent id that no step has, every wave leaves the plan as it
  found it, and the run never returns.
\<close>

theorem C4_status_reset_never_ends:
  "PlanDAGExecutor_run_live sample_dag (\<lambda>_. []) sample_single_plan sample_resetting_factory () 0 = None"
proof -
  let ?st0 = "\<lparr>dag_steps = steps sample_single_plan, waves = 0, executed = 0, hook_state = (), batches = 0\<rparr>"
  have "wave_loop_live sample_dag sample_resetting_factory (\<lambda>_. [])
          (stepIndex (steps sample_single_plan)) ?st0 = None"
  proof (cases "wave_loop_live sample_dag sample_resetting_factory (\<lambda>_. [])
          (stepIndex (steps sample_single_plan)) ?st0")
    case None
    then show ?thesis .
  next
    case (Some r)
    from resetting_loop [OF Some] show ?thesis by simp
  qed
  then show ?thesis by (simp add: PlanDAGExecutor_run_live_def)
qed

subsection \<open>Tool allowlist\<close>

lemma sublist_mid: "sublist x (a @ x @ b)"
  by (rule sublist_appendI)

text \<open>
  C7.  \<open>check\<close> allows every tool to an agent with no policy record and to an agent whose
  list is absent or empty; for a non-empty list it allows exactly the tools in the list;
  and a denial's reason contains the tool's name and the agent's id.
\<close>

theorem C7_check_allowlist:
  "(policyMap (ctx_agentId ctx) = None \<longrightarrow> allowed (check policyMap ctx))
   \<and> (\<forall>p. policyMap (ctx_agentId ctx) = Some p
          \<and> (allowedToolIds p = None \<or> allowedToolIds p = Some [])
        \<longrightarrow> allowed (check policyMap ctx))
   \<and> (\<forall>p l. policyMap (ctx_agentId ctx) = Some p \<and> allowedToolIds p = Some l \<and> l \<noteq> []
        \<longrightarrow> (allowed (check policyMap ctx) \<longleftrightarrow> toolName ctx \<in> set l))
   \<and> (\<not> allowed (check policyMap ctx)
        \<longrightarrow> (\<exists>r. reason (check policyMap ctx) = Some r
                 \<and> sublist (toolName ctx) r \<and> sublist (ctx_agentId ctx) r))"
proof -
  have names: "sublist (toolName ctx)
                 (''Tool '' @ sq @ toolName ctx @ sq @ '' not in allowlist for agent ''
                    @ sq @ ctx_agentId ctx @ sq @ ''.'')
               \<and> sublist (ctx_agentId ctx)
                 (''Tool '' @ sq @ toolName ctx @ sq @ '' not in allowlist for agent ''
                    @ sq @ ctx_agentId ctx @ sq @ ''.'')"
  proof
    show "sublist (toolName ctx)
            (''Tool '' @ sq @ toolName ctx @ sq @ '' not in allowlist for agent ''
               @ sq @ ctx_agentId ctx @ sq @ ''.'')"
      using sublist_mid [of "toolName ctx" "''Tool '' @ sq"] by simp
    show "sublist (ctx_agentId ctx)
            (''Tool '' @ sq @ toolName ctx @ sq @ '' not in allowlist for agent ''
               @ sq @ ctx_agentId ctx @ sq @ ''.'')"
      using sublist_mid [of "ctx_agentId ctx"
          "''Tool '' @ sq @ toolName ctx @ sq @ '' not in allowlist for agent '' @ sq" "sq @ ''.''"]
      by simp
  qed
  show ?thesis
    using names
    by (auto simp: check_def Let_def split: option.splits)
qed

theorem C7_check_allowlist_witness:
  "allowed (check (ToolAllowlistEnforcer [\<lparr>policy_agentId = ''a'', allowedToolIds = Some []\<rparr>])
             \<lparr>ctx_agentId = ''a'', ctx_phase = execution, toolName = ''y''\<rparr>)
   \<and> \<not> allowed (check (ToolAllowlistEnforcer [\<lparr>policy_agentId = ''a'', allowedToolIds = Some [''x'']\<rparr>])
             \<lparr>ctx_agentId = ''a'', ctx_phase = execution, toolName = ''y''\<rparr>)
   \<and> (\<exists>r. reason (check (ToolAllowlistEnforcer [\<lparr>policy_agentId = ''a'', allowedToolIds = Some [''x'']\<rparr>])
                    \<lparr>ctx_agentId = ''a'', ctx_phase = execution, toolName = ''y''\<rparr>) = Some r
          \<and> sublist ''y'' r \<and> sublist ''a'' r)"
  using C7_check_allowlist
          [of "ToolAllowlistEnforcer [\<lparr>policy_agentId = ''a'', allowedToolIds = Some []\<rparr>]"
              "\<lparr>ctx_agentId = ''a'', ctx_phase = execution, toolName = ''y''\<rparr>"]
        C7_check_allowlist
          [of "ToolAllowlistEnforcer [\<lparr>policy_agentId = ''a'', allowedToolIds = Some [''x'']\<rparr>]"
              "\<lparr>ctx_agentId = ''a'', ctx_phase = execution, toolName = ''y''\<rparr>"]
  by (simp add: ToolAllowlistEnforcer_def)

subsection \<open>Termination state\<close>

lemma latched_step:
  "terminated t \<Longrightarrow> counter_step pol c t = (False, t)"
  by (cases c) (simp_all add: incrementAgentLoop_def incrementReflectionCycle_def Let_def)

lemma latched_calls:
  "terminated t \<Longrightarrow> counter_calls pol cs t = (replicate (length cs) False, t)"
  by (induction cs) (simp_all add: latched_step)

text \<open>
  C9.  Once \<open>terminated\<close> is set, \<open>incrementAgentLoop\<close> and \<open>incrementReflectionCycle\<close>
  return false and change nothing of the termination state, however often they are
  called; \<open>setTerminated\<close> keeps the first reason and detail.
\<close>

theorem C9_termination_latched:
  "terminated t \<Longrightarrow>
     incrementAgentLoop pol a t = (False, t)
     \<and> incrementReflectionCycle pol t = (False, t)
     \<and> setTerminated r d t = t
     \<and> counter_calls pol cs t = (replicate (length cs) False, t)"
  by (simp add: incrementAgentLoop_def incrementReflectionCycle_def setTerminated_def
        Let_def latched_calls)

theorem C9_termination_latched_witness:
  "terminated \<lparr>agentLoopCounts = Map.empty, reflectionCycles = 4, terminated = True,
                termination_reason = Some MAX_REFLECTION_CYCLES,
                terminationDetail = Some ''exceeded maxReflectionCycles (3)''\<rparr>
   \<and> counter_calls None [AgentLoop ''w'', ReflectionCycle]
        \<lparr>agentLoopCounts = Map.empty, reflectionCycles = 4, terminated = True,
         termination_reason = Some MAX_REFLECTION_CYCLES,
         terminationDetail = Some ''exceeded maxReflectionCycles (3)''\<rparr>
       = ([False, False],
          \<lparr>agentLoopCounts = Map.empty, reflectionCycles = 4, terminated = True,
           termination_reason = Some MAX_REFLECTION_CYCLES,
           terminationDetail = Some ''exceeded maxReflectionCycles (3)''\<rparr>)"
  using C9_termination_latched
          [of "\<lparr>agentLoopCounts = Map.empty, reflectionCycles = 4, terminated = True,
                termination_reason = Some MAX_REFLECTION_CYCLES,
                terminationDetail = Some ''exceeded maxReflectionCycles (3)''\<rparr>"
              None "''w''" MAX_AGENT_LOOPS None "[AgentLoop ''w'', ReflectionCycle]"]
  by simp

lemma unlimited_agent_loop:
  "\<not> terminated t \<Longrightarrow> \<not> truthy_num (policy_maxAgentLoops pol) \<Longrightarrow>
     incrementAgentLoop pol a t
       = (True, t\<lparr>agentLoopCounts := (agentLoopCounts t)
                    (a \<mapsto> (case agentLoopCounts t a of None \<Rightarrow> 0 | Some n \<Rightarrow> n) + 1)\<rparr>)"
  by (simp add: incrementAgentLoop_def Let_def)

lemma unlimited_reflection:
  "\<not> terminated t \<Longrightarrow> \<not> truthy_num (policy_maxReflectionCycles pol) \<Longrightarrow>
     incrementReflectionCycle pol t = (True, t\<lparr>reflectionCycles := reflectionCycles t + 1\<rparr>)"
  by (simp add: incrementReflectionCycle_def Let_def)

lemma unlimited_agent_loops:
  "\<not> terminated t \<Longrightarrow> \<not> truthy_num (policy_maxAgentLoops pol) \<Longrightarrow>
     fst (counter_calls pol (map AgentLoop as) t) = replicate (length as) True
     \<and> \<not> terminated (snd (counter_calls pol (map AgentLoop as) t))
     \<and> termination_reason (snd (counter_calls pol (map AgentLoop as) t)) = termination_reason t
     \<and> terminationDetail (snd (counter_calls pol (map AgentLoop as) t)) = terminationDetail t"
proof (induction as arbitrary: t)
  case Nil
  then show ?case by simp
next
  case (Cons a as)
  let ?t1 = "t\<lparr>agentLoopCounts := (agentLoopCounts t)
                 (a \<mapsto> (case agentLoopCounts t a of None \<Rightarrow> 0 | Some n \<Rightarrow> n) + 1)\<rparr>"
  have step: "incrementAgentLoop pol a t = (True, ?t1)"
    using Cons.prems by (rule unlimited_agent_loop)
  have "\<not> terminated ?t1" using Cons.prems(1) by simp
  from Cons.IH [OF this Cons.prems(2)] show ?case
    by (simp add: step case_prod_beta)
qed

lemma unlimited_reflections:
  "\<not> terminated t \<Longrightarrow> \<not> truthy_num (policy_maxReflectionCycles pol) \<Longrightarrow>
     fst (counter_calls pol (replicate n ReflectionCycle) t) = replicate n True
     \<and> \<not> terminated (snd (counter_calls pol (replicate n ReflectionCycle) t))
     \<and> termination_reason (snd (counter_calls pol (replicate n ReflectionCycle) t)) = termination_reason t
     \<and> terminationDetail (snd (counter_calls pol (replicate n ReflectionCycle) t)) = terminationDetail t"
proof (induction n arbitrary: t)
  case 0
  then show ?case by simp
next
  case (Suc n)
  let ?t1 = "t\<lparr>reflectionCycles := reflectionCycles t + 1\<rparr>"
  have step: "incrementReflectionCycle pol t = (True, ?t1)"
    using Suc.prems by (rule unlimited_reflection)
  have "\<not> terminated ?t1" using Suc.prems(1) by simp
  from Suc.IH [OF this Suc.prems(2)] show ?case
    by (simp add: step case_prod_beta)
qed

text \<open>
  C10.  With \<open>maxAgentLoops\<close> absent or 0, any number of \<open>incrementAgentLoop\<close> calls on a
  state that is not terminated all return true and never set the termination state; the
  same holds of \<open>incrementReflectionCycle\<close> with \<open>maxReflectionCycles\<close> absent or 0.
\<close>

theorem C10_zero_ceiling_unlimited:
  "\<not> terminated t \<Longrightarrow>
     ((policy_maxAgentLoops pol = None \<or> policy_maxAgentLoops pol = Some 0) \<longrightarrow>
        fst (counter_calls pol (map AgentLoop as) t) = replicate (length as) True
        \<and> \<not> terminated (snd (counter_calls pol (map AgentLoop as) t))
        \<and> termination_reason (snd (counter_calls pol (map AgentLoop as) t)) = termination_reason t)
     \<and> ((policy_maxReflectionCycles pol = None \<or> policy_maxReflectionCycles pol = Some 0) \<longrightarrow>
        fst (counter_calls pol (replicate n ReflectionCycle) t) = replicate n True
        \<and> \<not> terminated (snd (counter_calls pol (replicate n ReflectionCycle) t))
        \<and> termination_reason (snd (counter_calls pol (replicate n ReflectionCycle) t))
            = termination_reason t)"
proof (intro conjI impI)
  assume nt: "\<not> terminated t"
  {
    assume "policy_maxAgentLoops pol = None \<or> policy_maxAgentLoops pol = Some 0"
    then have f: "\<not> truthy_num (policy_maxAgentLoops pol)"
      by (auto simp: truthy_num_def)
    from unlimited_agent_loops [OF nt f, of as]
    show "fst (counter_calls pol (map AgentLoop as) t) = replicate (length as) True"
      and "\<not> terminated (snd (counter_calls pol (map AgentLoop as) t))"
      and "termination_reason (snd (counter_calls pol (map AgentLoop as) t)) = termination_reason t"
      by simp_all
  }
  {
    assume "policy_maxReflectionCycles pol = None \<or> policy_maxReflectionCycles pol = Some 0"
    then have f: "\<not> truthy_num (policy_maxReflectionCycles pol)"
      by (auto simp: truthy_num_def)
    from unlimited_reflections [OF nt f, of n]
    show "fst (counter_calls pol (replicate n ReflectionCycle) t) = replicate n True"
      and "\<not> terminated (snd (counter_calls pol (replicate n ReflectionCycle) t))"
      and "termination_reason (snd (counter_calls pol (replicate n ReflectionCycle) t))
            = termination_reason t"
      by simp_all
  }
qed

theorem C10_zero_ceiling_unlimited_witness:
  "\<not> terminated \<lparr>agentLoopCounts = Map.empty, reflectionCycles = 0, terminated = False,
                  termination_reason = None, terminationDetail = None\<rparr>
   \<and> fst (counter_calls
        (Some \<lparr>policy_termination = Some \<lparr>maxAgentLoops = Some 0, maxReflectionCycles = None\<rparr>,
               policy_parallel = None\<rparr>)
        (map AgentLoop [''w'', ''w'', ''w''])
        \<lparr>agentLoopCounts = Map.empty, reflectionCycles = 0, terminated = False,
         termination_reason = None, terminationDetail = None\<rparr>) = [True, True, True]
   \<and> fst (counter_calls
        (Some \<lparr>policy_termination = Some \<lparr>maxAgentLoops = Some 0, maxReflectionCycles = None\<rparr>,
               policy_parallel = None\<rparr>)
        (replicate (Suc (Suc 0)) ReflectionCycle)
        \<lparr>agentLoopCounts = Map.empty, reflectionCycles = 0, terminated = False,
         termination_reason = None, terminationDetail = None\<rparr>) = [True, True]"
  using C10_zero_ceiling_unlimited
          [of "\<lparr>agentLoopCounts = Map.empty, reflectionCycles = 0, terminated = False,
                termination_reason = None, terminationDetail = None\<rparr>"
              "Some \<lparr>policy_termination = Some \<lparr>maxAgentLoops = Some 0, maxReflectionCycles = None\<rparr>,
                     policy_parallel = None\<rparr>"
              "[''w'', ''w'', ''w'']" "Suc (Suc 0)"]
  by (simp add: policy_maxAgentLoops_def policy_maxReflectionCycles_def)

end
